theory Spec2Isabelle
  imports Complex_Main "HOL-Library.Sublist" "HOL-Library.Char_ord" "HOL-Library.List_Lexorder"
    "HOL-Library.Multiset"
begin

section \<open>Outcomes of an operation\<close>

text \<open>
  The C++ sources end an operation in one of four ways: it returns; it calls \<open>ABORT\<close>
  (the macro of \<open>abor1_cpp.h\<close>, which stops the process: "execution is aborted",
  as the comment above \<open>NetcdfIO::CheckNcCall\<close> puts it); it throws (a failed
  \<open>ASSERT\<close>, a missing configuration key); or it leaves defined behaviour (a division
  of \<open>size_t\<close> by zero, a write beyond a \<open>new[]\<close> buffer, a read of an element never
  written).
\<close>

datatype 'a outcome = Returned 'a | Aborted string | Thrown string | UndefinedBehaviour

fun obind :: "'a outcome \<Rightarrow> ('a \<Rightarrow> 'b outcome) \<Rightarrow> 'b outcome" where
  "obind (Returned x) f = f x"
| "obind (Aborted msg) f = Aborted msg"
| "obind (Thrown msg) f = Thrown msg"
| "obind UndefinedBehaviour f = UndefinedBehaviour"

section \<open>Strings\<close>

text \<open>\<open>std::string::find(pat)\<close>: the position of the first occurrence, \<open>None\<close> for \<open>npos\<close>.\<close>

fun str_find :: "string \<Rightarrow> string \<Rightarrow> nat option" where
  "str_find pat [] = (if pat = [] then Some 0 else None)"
| "str_find pat (c # cs) =
     (if prefix pat (c # cs) then Some 0 else map_option Suc (str_find pat cs))"

text \<open>\<open>s.substr(pos)\<close> and \<open>s.substr(0, n)\<close>, where \<open>n\<close> may be \<open>npos\<close>.\<close>

definition substr_from :: "string \<Rightarrow> nat \<Rightarrow> string" where
  "substr_from s pos = drop pos s"

definition substr_upto :: "string \<Rightarrow> nat option \<Rightarrow> string" where
  "substr_upto s n = (case n of None \<Rightarrow> s | Some k \<Rightarrow> take k s)"

section \<open>Integers of C++\<close>

text \<open>
  \<open>/\<close> and \<open>%\<close> on \<open>int\<close>: the quotient is truncated towards zero, and the remainder has
  the sign of the dividend.
\<close>

definition c_div :: "int \<Rightarrow> int \<Rightarrow> int" where
  "c_div a b = sgn a * sgn b * (\<bar>a\<bar> div \<bar>b\<bar>)"

definition c_mod :: "int \<Rightarrow> int \<Rightarrow> int" where
  "c_mod a b = a - b * c_div a b"

text \<open>
  \<open>static_cast<int>(x)\<close> of a \<open>float\<close>: the fractional part is discarded. The cast is
  defined only when the truncated value fits a 32-bit \<open>int\<close>.
\<close>

definition static_cast_int :: "real \<Rightarrow> int" where
  "static_cast_int x = (if 0 \<le> x then \<lfloor>x\<rfloor> else \<lceil>x\<rceil>)"

definition fits_int :: "int \<Rightarrow> bool" where
  "fits_int n = (- (2 ^ 31) \<le> n \<and> n < 2 ^ 31)"

section \<open>What the sources take from the utility library\<close>

text \<open>
  \<open>util::DateTime\<close>, \<open>util::Duration\<close>, \<open>datetime_setints_f\<close> and \<open>util::missingValue\<close>
  belong to the utility library the sources include, not to this repository. A
  \<open>DateTime\<close> is modelled as a count of seconds on a time line, so that adding a
  \<open>Duration\<close> of \<open>n\<close> seconds is \<open>+ n\<close> and the comparisons are those of \<open>int\<close>. The
  calendar conversions, the default \<open>DateTime\<close>, the sentinel and the arithmetic of IEEE
  single precision (the product of two floats, the conversion to float) are parameters,
  collected in one record. A finite \<open>float\<close> or \<open>double\<close> is the real number it denotes;
  comparing a \<open>float\<close> with a \<open>double\<close> constant is exact.
\<close>

type_synonym DateTime = int

record util_env =
  datetime_setints_f :: "int \<Rightarrow> int \<Rightarrow> DateTime"
  toYYYYMMDDhhmmss :: "DateTime \<Rightarrow> int \<times> int \<times> int \<times> int \<times> int \<times> int"
  default_DateTime :: DateTime
  missingValue :: real
  float_mult :: "real \<Rightarrow> real \<Rightarrow> real"
  to_float :: "real \<Rightarrow> real"

section \<open>Distributions\<close>

record Comm =
  comm_rank :: nat
  comm_size :: nat

text \<open>
  Modelled from the spec: \<open>RoundRobin::distribution\<close> with a record-group vector; the
  sources hold only the declaration of class \<open>RoundRobin\<close>. "Round-robin reference
  assigns record \<open>k\<close> to rank \<open>k mod R\<close>, breaking ties by ascending global index."
\<close>

definition RoundRobin_groups :: "Comm \<Rightarrow> nat \<Rightarrow> nat list \<Rightarrow> nat list" where
  "RoundRobin_groups comm Nlocs g =
     filter (\<lambda>i. (g ! i) mod comm_size comm = comm_rank comm) [0..<Nlocs]"

text \<open>
  Modelled from the spec: \<open>RoundRobin::distribution\<close> without a record-group vector, as
  the constructor of \<open>NetcdfIO\<close> calls it. "When \<open>g\<close> is absent each index is its own
  record."
\<close>

definition RoundRobin_distribution :: "Comm \<Rightarrow> nat \<Rightarrow> nat list" where
  "RoundRobin_distribution comm Nlocs = RoundRobin_groups comm Nlocs [0..<Nlocs]"

text \<open>
  Modelled from the spec: \<open>Distribution::erase\<close>, of the base class that the sources do not
  hold. "\<open>erase(i)\<close> removes \<open>i\<close> from \<open>I_r\<close> and must leave a stable, repeatable
  iteration order among surviving indices."
\<close>

definition erase :: "nat list \<Rightarrow> nat \<Rightarrow> nat list" where
  "erase indx i = remove1 i indx"

section \<open>The netCDF library\<close>

text \<open>
  The netCDF library is not part of the repository. A file is modelled by what the calls
  of the sources can observe: its dimensions (the id of a dimension is its position), its
  variables with the ids of their dimensions and their values, and its global integer
  attributes. A call gives the library's error code (\<open>Inl\<close>) or its result (\<open>Inr\<close>).
\<close>

datatype nc_values =
  IntValues "int list" | FloatValues "real list" | DoubleValues "real list" | CharValues string

record nc_var =
  var_name :: string
  var_dimids :: "int list"
  var_values :: nc_values

record nc_file =
  nc_dims :: "(string \<times> nat) list"
  nc_vars :: "nc_var list"
  nc_atts :: "(string \<times> int) list"

type_synonym 'a nc_result = "int + 'a"

definition NC_NOERR :: int where "NC_NOERR = 0"
definition ENOENT :: int where "ENOENT = 2"
definition NC_EEXIST :: int where "NC_EEXIST = - 35"
definition NC_ENAMEINUSE :: int where "NC_ENAMEINUSE = - 42"
definition NC_ENOTATT :: int where "NC_ENOTATT = - 43"
definition NC_EBADDIM :: int where "NC_EBADDIM = - 46"
definition NC_ENOTVAR :: int where "NC_ENOTVAR = - 49"
definition NC_ECHAR :: int where "NC_ECHAR = - 56"
definition NC_ERANGE :: int where "NC_ERANGE = - 60"

definition retval :: "'a nc_result \<Rightarrow> int" where
  "retval r = (case r of Inl e \<Rightarrow> e | Inr x \<Rightarrow> NC_NOERR)"

fun first_index :: "('a \<Rightarrow> bool) \<Rightarrow> 'a list \<Rightarrow> nat option" where
  "first_index P [] = None"
| "first_index P (x # xs) = (if P x then Some 0 else map_option Suc (first_index P xs))"

definition nc_open :: "(string \<Rightarrow> nc_file option) \<Rightarrow> string \<Rightarrow> nc_file nc_result" where
  "nc_open fs path = (case fs path of None \<Rightarrow> Inl ENOENT | Some f \<Rightarrow> Inr f)"

definition nc_create :: "(string \<Rightarrow> nc_file option) \<Rightarrow> string \<Rightarrow> bool \<Rightarrow> nc_file nc_result" where
  "nc_create fs path noclobber =
     (if noclobber \<and> fs path \<noteq> None then Inl NC_EEXIST
      else Inr \<lparr>nc_dims = [], nc_vars = [], nc_atts = []\<rparr>)"

definition nc_inq_dimid :: "nc_file \<Rightarrow> string \<Rightarrow> int nc_result" where
  "nc_inq_dimid f name =
     (case first_index (\<lambda>d. fst d = name) (nc_dims f) of
        None \<Rightarrow> Inl NC_EBADDIM
      | Some i \<Rightarrow> Inr (int i))"

definition nc_inq_dimlen :: "nc_file \<Rightarrow> int \<Rightarrow> nat nc_result" where
  "nc_inq_dimlen f dimid =
     (if 0 \<le> dimid \<and> nat dimid < length (nc_dims f) then Inr (snd (nc_dims f ! nat dimid))
      else Inl NC_EBADDIM)"

definition nc_def_dim :: "nc_file \<Rightarrow> string \<Rightarrow> nat \<Rightarrow> (nc_file \<times> int) nc_result" where
  "nc_def_dim f name len =
     (case first_index (\<lambda>d. fst d = name) (nc_dims f) of
        Some i \<Rightarrow> Inl NC_EEXIST
      | None \<Rightarrow> Inr (f\<lparr>nc_dims := nc_dims f @ [(name, len)]\<rparr>, int (length (nc_dims f))))"

definition nc_inq_varid :: "nc_file \<Rightarrow> string \<Rightarrow> nat nc_result" where
  "nc_inq_varid f name =
     (case first_index (\<lambda>v. var_name v = name) (nc_vars f) of
        None \<Rightarrow> Inl NC_ENOTVAR
      | Some i \<Rightarrow> Inr i)"

definition nc_inq_attid :: "nc_file \<Rightarrow> string \<Rightarrow> nat nc_result" where
  "nc_inq_attid f name =
     (case first_index (\<lambda>a. fst a = name) (nc_atts f) of
        None \<Rightarrow> Inl NC_ENOTATT
      | Some i \<Rightarrow> Inr i)"

definition nc_get_att_int :: "nc_file \<Rightarrow> string \<Rightarrow> int nc_result" where
  "nc_get_att_int f name =
     (case map_of (nc_atts f) name of None \<Rightarrow> Inl NC_ENOTATT | Some v \<Rightarrow> Inr v)"

text \<open>
  \<open>nc_get_var_int\<close>, \<open>nc_get_var_float\<close> and \<open>nc_get_var_double\<close> read all the values of
  a variable, converted to the type asked for; text cannot be converted.
\<close>

definition nc_get_var_int :: "nc_file \<Rightarrow> nat \<Rightarrow> int list nc_result" where
  "nc_get_var_int f varid =
     (case var_values (nc_vars f ! varid) of
        IntValues xs \<Rightarrow> Inr xs
      | FloatValues xs \<Rightarrow>
          if list_all (\<lambda>x. fits_int (static_cast_int x)) xs then Inr (map static_cast_int xs)
          else Inl NC_ERANGE
      | DoubleValues xs \<Rightarrow>
          if list_all (\<lambda>x. fits_int (static_cast_int x)) xs then Inr (map static_cast_int xs)
          else Inl NC_ERANGE
      | CharValues cs \<Rightarrow> Inl NC_ECHAR)"

definition nc_get_var_float :: "util_env \<Rightarrow> nc_file \<Rightarrow> nat \<Rightarrow> real list nc_result" where
  "nc_get_var_float ux f varid =
     (case var_values (nc_vars f ! varid) of
        IntValues xs \<Rightarrow> Inr (map (\<lambda>i. to_float ux (real_of_int i)) xs)
      | FloatValues xs \<Rightarrow> Inr xs
      | DoubleValues xs \<Rightarrow> Inr (map (to_float ux) xs)
      | CharValues cs \<Rightarrow> Inl NC_ECHAR)"

definition nc_get_var_double :: "nc_file \<Rightarrow> nat \<Rightarrow> real list nc_result" where
  "nc_get_var_double f varid =
     (case var_values (nc_vars f ! varid) of
        IntValues xs \<Rightarrow> Inr (map real_of_int xs)
      | FloatValues xs \<Rightarrow> Inr xs
      | DoubleValues xs \<Rightarrow> Inr xs
      | CharValues cs \<Rightarrow> Inl NC_ECHAR)"

text \<open>
  \<open>nc_def_var(ncid, name, type, 1, &dimid, &varid)\<close> makes a variable of rank 1 that has
  no values yet; its type is the one of the empty values handed in. The name is taken to
  be one the library accepts. The size of a variable is the product of the lengths of its
  dimensions. \<open>nc_put_var_int\<close>, \<open>nc_put_var_float\<close> and \<open>nc_put_var_double\<close> write as
  many values as the size of the variable, converted to its type.
\<close>

definition nc_def_var :: "nc_file \<Rightarrow> string \<Rightarrow> nc_values \<Rightarrow> int \<Rightarrow> (nc_file \<times> nat) nc_result" where
  "nc_def_var f name no_values dimid =
     (case first_index (\<lambda>v. var_name v = name) (nc_vars f) of
        Some i \<Rightarrow> Inl NC_ENAMEINUSE
      | None \<Rightarrow>
          if 0 \<le> dimid \<and> nat dimid < length (nc_dims f)
          then Inr (f\<lparr>nc_vars := nc_vars f @
                        [\<lparr>var_name = name, var_dimids = [dimid], var_values = no_values\<rparr>]\<rparr>,
                    length (nc_vars f))
          else Inl NC_EBADDIM)"

definition var_size :: "nc_file \<Rightarrow> nat \<Rightarrow> nat" where
  "var_size f varid =
     prod_list (map (\<lambda>d. case nc_inq_dimlen f d of Inr n \<Rightarrow> n | Inl e \<Rightarrow> 0)
                  (var_dimids (nc_vars f ! varid)))"

definition set_values :: "nc_file \<Rightarrow> nat \<Rightarrow> nc_values \<Rightarrow> nc_file" where
  "set_values f varid vals =
     f\<lparr>nc_vars := (nc_vars f)[varid := (nc_vars f ! varid)\<lparr>var_values := vals\<rparr>]\<rparr>"

definition nc_put_var_int :: "util_env \<Rightarrow> nc_file \<Rightarrow> nat \<Rightarrow> int list \<Rightarrow> nc_file nc_result" where
  "nc_put_var_int ux f varid data =
     (let vals = take (var_size f varid) data in
      case var_values (nc_vars f ! varid) of
        IntValues xs \<Rightarrow> Inr (set_values f varid (IntValues vals))
      | FloatValues xs \<Rightarrow>
          Inr (set_values f varid (FloatValues (map (\<lambda>i. to_float ux (real_of_int i)) vals)))
      | DoubleValues xs \<Rightarrow> Inr (set_values f varid (DoubleValues (map real_of_int vals)))
      | CharValues cs \<Rightarrow> Inl NC_ECHAR)"

definition nc_put_var_float :: "nc_file \<Rightarrow> nat \<Rightarrow> real list \<Rightarrow> nc_file nc_result" where
  "nc_put_var_float f varid data =
     (let vals = take (var_size f varid) data in
      case var_values (nc_vars f ! varid) of
        IntValues xs \<Rightarrow>
          if list_all (\<lambda>x. fits_int (static_cast_int x)) vals
          then Inr (set_values f varid (IntValues (map static_cast_int vals)))
          else Inl NC_ERANGE
      | FloatValues xs \<Rightarrow> Inr (set_values f varid (FloatValues vals))
      | DoubleValues xs \<Rightarrow> Inr (set_values f varid (DoubleValues vals))
      | CharValues cs \<Rightarrow> Inl NC_ECHAR)"

definition nc_put_var_double :: "util_env \<Rightarrow> nc_file \<Rightarrow> nat \<Rightarrow> real list \<Rightarrow> nc_file nc_result" where
  "nc_put_var_double ux f varid data =
     (let vals = take (var_size f varid) data in
      case var_values (nc_vars f ! varid) of
        IntValues xs \<Rightarrow>
          if list_all (\<lambda>x. fits_int (static_cast_int x)) vals
          then Inr (set_values f varid (IntValues (map static_cast_int vals)))
          else Inl NC_ERANGE
      | FloatValues xs \<Rightarrow> Inr (set_values f varid (FloatValues (map (to_float ux) vals)))
      | DoubleValues xs \<Rightarrow> Inr (set_values f varid (DoubleValues vals))
      | CharValues cs \<Rightarrow> Inl NC_ECHAR)"

section \<open>NetcdfIO\<close>

definition missingthreshold :: real where
  "missingthreshold = 100000000"

text \<open>
  \<open>boost::any\<close>, as the reader fills it and the writer reads it: empty, an \<open>int\<close>, a
  \<open>float\<close> or a \<open>double\<close>.
\<close>

datatype any = any_empty | any_int int | any_float real | any_double real

text \<open>
  The data members of \<open>NetcdfIO\<close> and of its base class. A name cannot end in an
  underscore here, so a member \<open>x_\<close> of the sources is \<open>x_m\<close>. \<open>ncid_\<close>, the handle of the
  open file, holds the file; \<open>dist_\<close> holds the index vector of the distribution.
\<close>

record NetcdfIO =
  fname_m :: string
  fmode_m :: string
  nlocs_m :: nat
  nobs_m :: nat
  nrecs_m :: nat
  nvars_m :: nat
  nfvlen_m :: nat
  ncid_m :: nc_file
  nrecs_id_m :: int
  nobs_id_m :: int
  nlocs_id_m :: int
  nvars_id_m :: int
  nchans_id_m :: int
  have_nrecs_m :: bool
  have_nobs_m :: bool
  have_nlocs_m :: bool
  have_nvars_m :: bool
  have_nchans_m :: bool
  vname_group_m :: "(string \<times> string) list"
  dist_m :: "nat list"
  date_m :: "int list"
  time_m :: "int list"

text \<open>\<open>NetcdfIO::CheckNcCall\<close>.\<close>

definition CheckNcCall :: "int \<Rightarrow> string \<Rightarrow> unit outcome" where
  "CheckNcCall RetCode ErrorMsg =
     (if RetCode \<noteq> NC_NOERR then Aborted ErrorMsg else Returned ())"

text \<open>\<open>CheckNcCall(nc_...(..., &out), ErrorMsg)\<close>: the call, its check, and the value it left.\<close>

definition checked :: "'a nc_result \<Rightarrow> string \<Rightarrow> 'a outcome" where
  "checked r ErrorMsg =
     obind (CheckNcCall (retval r) ErrorMsg)
       (\<lambda>u. case r of Inr x \<Rightarrow> Returned x | Inl e \<Rightarrow> UndefinedBehaviour)"

text \<open>
  The constructor, lines 117 to 134: the file is opened as the mode says; an unknown mode
  and a failed open abort.
\<close>

definition open_by_mode :: "(string \<Rightarrow> nc_file option) \<Rightarrow> string \<Rightarrow> string \<Rightarrow> nc_file outcome" where
  "open_by_mode fs FileName FileMode =
     obind
       (if FileMode = ''r'' then Returned (nc_open fs FileName)
        else if FileMode = ''w'' then Returned (nc_create fs FileName True)
        else if FileMode = ''W'' then Returned (nc_create fs FileName False)
        else Aborted ''Unrecognized file mode for NetcdfIO constructor'')
       (\<lambda>r. if retval r \<noteq> NC_NOERR then Aborted ''Unable to open file''
            else (case r of Inr f \<Rightarrow> Returned f | Inl e \<Rightarrow> UndefinedBehaviour))"

text \<open>
  Lines 155 to 165: \<open>retval_ = nc_inq_dimid(ncid_, name, &id); have = (retval_ == NC_NOERR)\<close>.
  A failed inquiry leaves the id member as it was; the members have no initialiser, so
  before the constructor runs they hold whatever the state handed in holds.
\<close>

definition inq_dimid_into :: "nc_file \<Rightarrow> string \<Rightarrow> int \<Rightarrow> int \<times> bool" where
  "inq_dimid_into f name old =
     (case nc_inq_dimid f name of Inr i \<Rightarrow> (i, True) | Inl e \<Rightarrow> (old, False))"

definition query_dims :: "NetcdfIO \<Rightarrow> NetcdfIO" where
  "query_dims s =
     (let f = ncid_m s in
      s\<lparr>nrecs_id_m := fst (inq_dimid_into f ''nrecs'' (nrecs_id_m s)),
        have_nrecs_m := snd (inq_dimid_into f ''nrecs'' (nrecs_id_m s)),
        nobs_id_m := fst (inq_dimid_into f ''nobs'' (nobs_id_m s)),
        have_nobs_m := snd (inq_dimid_into f ''nobs'' (nobs_id_m s)),
        nlocs_id_m := fst (inq_dimid_into f ''nlocs'' (nlocs_id_m s)),
        have_nlocs_m := snd (inq_dimid_into f ''nlocs'' (nlocs_id_m s)),
        nvars_id_m := fst (inq_dimid_into f ''nvars'' (nvars_id_m s)),
        have_nvars_m := snd (inq_dimid_into f ''nvars'' (nvars_id_m s)),
        nchans_id_m := fst (inq_dimid_into f ''nchans'' (nchans_id_m s)),
        have_nchans_m := snd (inq_dimid_into f ''nchans'' (nchans_id_m s))\<rparr>)"

text \<open>
  \<open>nc_inq_dimlen(ncid_, id, &len)\<close> with its return code ignored: a failed inquiry leaves
  \<open>len\<close> as it was.
\<close>

definition inq_dimlen_into :: "nc_file \<Rightarrow> int \<Rightarrow> nat \<Rightarrow> nat" where
  "inq_dimlen_into f dimid old = (case nc_inq_dimlen f dimid of Inr n \<Rightarrow> n | Inl e \<Rightarrow> old)"

text \<open>Lines 167 to 185: the sizes of a new file (\<open>nrecs\<close> present) and of an old one.\<close>

definition set_sizes :: "NetcdfIO \<Rightarrow> NetcdfIO outcome" where
  "set_sizes s =
     (let f = ncid_m s in
      if have_nrecs_m s then
        Returned (s\<lparr>nfvlen_m := inq_dimlen_into f (nlocs_id_m s) (nfvlen_m s),
                    nobs_m := inq_dimlen_into f (nobs_id_m s) (nobs_m s),
                    nrecs_m := inq_dimlen_into f (nrecs_id_m s) (nrecs_m s),
                    nvars_m := inq_dimlen_into f (nvars_id_m s) (nvars_m s)\<rparr>)
      else
        (let nobs = inq_dimlen_into f (nobs_id_m s) (nobs_m s);
             nvars = (if have_nchans_m s then inq_dimlen_into f (nchans_id_m s) (nvars_m s) else 1)
         in if nvars = 0 then UndefinedBehaviour
            else Returned (s\<lparr>nobs_m := nobs, nvars_m := nvars,
                              nfvlen_m := nobs div nvars, nrecs_m := nlocs_m s\<rparr>)))"

text \<open>
  Lines 199 to 221: the valid variables. \<open>starts_with pat s\<close> is
  \<open>(found != npos) && (found == 0)\<close> for \<open>found = s.find(pat)\<close>.
\<close>

definition starts_with :: "string \<Rightarrow> string \<Rightarrow> bool" where
  "starts_with pat s = (str_find pat s = Some 0)"

definition valid_entries :: "int \<Rightarrow> nc_var \<Rightarrow> (string \<times> string) list" where
  "valid_entries nlocs_id v =
     (if length (var_dimids v) = 1 \<and> var_dimids v ! 0 = nlocs_id then
        (let vname = var_name v;
             Spos = str_find ''@'' vname;
             gname = (case Spos of None \<Rightarrow> '''' | Some p \<Rightarrow> substr_from vname (p + 1))
         in (substr_upto vname Spos, gname) #
            (if starts_with ''time'' vname then [(''date'', gname)] else []))
      else [])"

fun walk_variables :: "int \<Rightarrow> nc_var list \<Rightarrow> (string \<times> string) list \<Rightarrow> (string \<times> string) list" where
  "walk_variables nlocs_id [] vname_group = vname_group"
| "walk_variables nlocs_id (v # vs) vname_group =
     walk_variables nlocs_id vs (vname_group @ valid_entries nlocs_id v)"

text \<open>
  \<open>NetcdfIO::ReadDateTime(util::DateTime VarDateTime[])\<close>, lines 570 to 612. The
  constructor hands it an array of \<open>nfvlen_\<close> default-constructed elements; the loop writes
  one element for each value of the time variable, so more values than \<open>nfvlen_\<close> is a
  write beyond the array. \<open>nc_inq_vardimid\<close> writes one id for each dimension of the time
  variable into a single \<open>int\<close>, which is defined for a variable of rank 1 only.
\<close>

definition offset_seconds :: "util_env \<Rightarrow> real \<Rightarrow> int" where
  "offset_seconds ux offset = static_cast_int (float_mult ux offset 3600)"

definition reference_DateTime :: "util_env \<Rightarrow> int \<Rightarrow> DateTime" where
  "reference_DateTime ux dtvals =
     datetime_setints_f ux (c_div dtvals 100) (c_mod dtvals 100 * 3600)"

text \<open>Lines 588 to 591: the variable \<open>time\<close>, or else \<open>time@MetaData\<close>.\<close>

definition time_variable :: "nc_file \<Rightarrow> nat outcome" where
  "time_variable f =
     (case nc_inq_varid f ''time'' of
        Inr varid \<Rightarrow> Returned varid
      | Inl e \<Rightarrow> checked (nc_inq_varid f ''time@MetaData'')
          ''NetcdfIO::ReadDateTime: Unable to find time variable: time OR Obs_Time'')"

definition ReadDateTime :: "util_env \<Rightarrow> NetcdfIO \<Rightarrow> DateTime list outcome" where
  "ReadDateTime ux s =
     (let f = ncid_m s in
      obind (checked (nc_get_att_int f ''date_time'')
               ''NetcdfIO::ReadDateTime: Unable to read attribute: date_time'') (\<lambda>dtvals.
      let refdt = reference_DateTime ux dtvals in
      obind (time_variable f) (\<lambda>varid.
      case var_dimids (nc_vars f ! varid) of
        [dimid] \<Rightarrow>
          obind (checked (nc_inq_dimlen f dimid)
                   ''NetcdfIO::ReadDateTime: Unable to find size of dimension of time variable'') (\<lambda>vsize.
          obind (checked (nc_get_var_float ux f varid)
                   ''NetcdfIO::ReadDateTime: Unable to read time variable: '') (\<lambda>OffsetTime.
          if length OffsetTime = vsize \<and> vsize \<le> nfvlen_m s
             \<and> list_all (\<lambda>x. fits_int (offset_seconds ux x)) OffsetTime
          then Returned (map (\<lambda>x. refdt + offset_seconds ux x) OffsetTime
                         @ replicate (nfvlen_m s - vsize) (default_DateTime ux))
          else UndefinedBehaviour))
      | dimids \<Rightarrow> UndefinedBehaviour)))"

text \<open>
  Lines 229 to 244: the loop over the indices of the distribution, which collects the
  dates and times of the observations inside the window and the indices outside of it,
  and the loop that erases the latter.
\<close>

fun window_loop ::
  "util_env \<Rightarrow> DateTime list \<Rightarrow> DateTime \<Rightarrow> DateTime \<Rightarrow> nat list
   \<Rightarrow> int list \<times> int list \<times> nat list \<Rightarrow> int list \<times> int list \<times> nat list" where
  "window_loop ux datetime bgn endt [] acc = acc"
| "window_loop ux datetime bgn endt (index # rest) (date, time, to_be_removed) =
     (if datetime ! index > bgn \<and> datetime ! index \<le> endt then
        (case toYYYYMMDDhhmmss ux (datetime ! index) of
           (Year, Month, Day, Hour, Minute, Second) \<Rightarrow>
             window_loop ux datetime bgn endt rest
               (date @ [Year * 10000 + Month * 100 + Day],
                time @ [Hour * 10000 + Minute * 100 + Second],
                to_be_removed))
      else window_loop ux datetime bgn endt rest (date, time, to_be_removed @ [index]))"

text \<open>
  The condition of lines 233 and 234, and the two numbers of lines 237 and 238, by name.
\<close>

definition inside :: "DateTime list \<Rightarrow> DateTime \<Rightarrow> DateTime \<Rightarrow> nat \<Rightarrow> bool" where
  "inside datetime bgn endt i = (bgn < datetime ! i \<and> datetime ! i \<le> endt)"

definition yyyymmdd :: "util_env \<Rightarrow> DateTime \<Rightarrow> int" where
  "yyyymmdd ux t =
     (case toYYYYMMDDhhmmss ux t of
        (Year, Month, Day, Hour, Minute, Second) \<Rightarrow> Year * 10000 + Month * 100 + Day)"

definition hhmmss :: "util_env \<Rightarrow> DateTime \<Rightarrow> int" where
  "hhmmss ux t =
     (case toYYYYMMDDhhmmss ux t of
        (Year, Month, Day, Hour, Minute, Second) \<Rightarrow> Hour * 10000 + Minute * 100 + Second)"

fun erase_loop :: "nat list \<Rightarrow> nat list \<Rightarrow> nat list" where
  "erase_loop indx [] = indx"
| "erase_loop indx (i # to_be_removed) = erase_loop (erase indx i) to_be_removed"

definition apply_window :: "util_env \<Rightarrow> NetcdfIO \<Rightarrow> DateTime \<Rightarrow> DateTime \<Rightarrow> NetcdfIO outcome" where
  "apply_window ux s bgn endt =
     obind (ReadDateTime ux s) (\<lambda>datetime.
       case window_loop ux datetime bgn endt (dist_m s) (date_m s, time_m s, []) of
         (date, time, to_be_removed) \<Rightarrow>
           (let indx = erase_loop (dist_m s) to_be_removed in
            if length date = length indx
            then Returned (s\<lparr>date_m := date, time_m := time, dist_m := indx\<rparr>)
            else Thrown ''Assertion failed: date_.size() == dist_->size()''))"

text \<open>
  Lines 187 to 221: the round-robin distribution over \<open>nfvlen_\<close>, and the walk through
  the variables of the file. \<open>DistributionFactory\<close> is not among the sources;
  \<open>createDistribution("roundrobin")\<close> is taken to make a \<open>RoundRobin\<close>, as its argument
  says. \<open>nc_inq_nvars\<close> and \<open>nc_inq_var\<close> do not fail on an open file and a variable id
  below the number of variables.
\<close>

definition select_variables :: "NetcdfIO \<Rightarrow> Comm \<Rightarrow> NetcdfIO" where
  "select_variables s commMPI =
     (let s2 = s\<lparr>dist_m := RoundRobin_distribution commMPI (nfvlen_m s)\<rparr>
      in s2\<lparr>vname_group_m :=
               walk_variables (nlocs_id_m s2) (nc_vars (ncid_m s2)) (vname_group_m s2)\<rparr>)"

text \<open>The read branch of the constructor, lines 153 to 253.\<close>

definition read_mode :: "util_env \<Rightarrow> NetcdfIO \<Rightarrow> DateTime \<Rightarrow> DateTime \<Rightarrow> Comm \<Rightarrow> NetcdfIO outcome" where
  "read_mode ux s bgn endt commMPI =
     obind (set_sizes (query_dims s)) (\<lambda>s1.
       let s3 = select_variables s1 commMPI
       in obind (if retval (nc_inq_attid (ncid_m s3) ''date_time'') = NC_NOERR
                 then apply_window ux s3 bgn endt
                 else Returned s3)
            (\<lambda>s4. Returned (s4\<lparr>nlocs_m := length (dist_m s4)\<rparr>)))"

text \<open>The write branch, lines 257 to 266: the four dimensions are defined.\<close>

definition def_dim_into :: "nc_file \<Rightarrow> string \<Rightarrow> nat \<Rightarrow> int \<Rightarrow> nc_file \<times> int \<times> bool" where
  "def_dim_into f name len old =
     (case nc_def_dim f name len of Inr (f', i) \<Rightarrow> (f', i, True) | Inl e \<Rightarrow> (f, old, False))"

definition write_mode :: "NetcdfIO \<Rightarrow> nat \<Rightarrow> nat \<Rightarrow> nat \<Rightarrow> nat \<Rightarrow> NetcdfIO" where
  "write_mode s Nlocs Nobs Nrecs Nvars =
     (case def_dim_into (ncid_m s) ''nlocs'' Nlocs (nlocs_id_m s) of (f1, i1, h1) \<Rightarrow>
      case def_dim_into f1 ''nobs'' Nobs (nobs_id_m s) of (f2, i2, h2) \<Rightarrow>
      case def_dim_into f2 ''nrecs'' Nrecs (nrecs_id_m s) of (f3, i3, h3) \<Rightarrow>
      case def_dim_into f3 ''nvars'' Nvars (nvars_id_m s) of (f4, i4, h4) \<Rightarrow>
        s\<lparr>ncid_m := f4, nlocs_id_m := i1, have_nlocs_m := h1, nobs_id_m := i2, have_nobs_m := h2,
          nrecs_id_m := i3, have_nrecs_m := h3, nvars_id_m := i4, have_nvars_m := h4\<rparr>)"

text \<open>
  \<open>NetcdfIO::NetcdfIO\<close>. \<open>m0\<close> holds the members as they are before the body runs: the
  vectors are empty, the others have no initialiser.
\<close>

definition initial_members ::
  "NetcdfIO \<Rightarrow> string \<Rightarrow> string \<Rightarrow> nat \<Rightarrow> nat \<Rightarrow> nat \<Rightarrow> nat \<Rightarrow> nc_file \<Rightarrow> NetcdfIO" where
  "initial_members m0 FileName FileMode Nlocs Nobs Nrecs Nvars f =
     m0\<lparr>fname_m := FileName, fmode_m := FileMode, nlocs_m := Nlocs, nobs_m := Nobs,
        nrecs_m := Nrecs, nvars_m := Nvars, ncid_m := f,
        vname_group_m := [], dist_m := [], date_m := [], time_m := []\<rparr>"

definition NetcdfIO_ctor ::
  "util_env \<Rightarrow> (string \<Rightarrow> nc_file option) \<Rightarrow> NetcdfIO \<Rightarrow> string \<Rightarrow> string \<Rightarrow> DateTime \<Rightarrow> DateTime
   \<Rightarrow> Comm \<Rightarrow> nat \<Rightarrow> nat \<Rightarrow> nat \<Rightarrow> nat \<Rightarrow> NetcdfIO outcome" where
  "NetcdfIO_ctor ux fs m0 FileName FileMode bgn endt commMPI Nlocs Nobs Nrecs Nvars =
     obind (open_by_mode fs FileName FileMode) (\<lambda>f.
       let s = initial_members m0 FileName FileMode Nlocs Nobs Nrecs Nvars f
       in if FileMode = ''r'' then read_mode ux s bgn endt commMPI
          else Returned (write_mode s Nlocs Nobs Nrecs Nvars))"

text \<open>
  \<open>NetcdfIO::ReadVar\<close> for \<open>int*\<close>, \<open>float*\<close> and \<open>double*\<close>, lines 360 to 398: the values
  the library writes into the caller's buffer.
\<close>

definition ReadVar_int :: "NetcdfIO \<Rightarrow> string \<Rightarrow> int list outcome" where
  "ReadVar_int s VarName =
     obind (checked (nc_inq_varid (ncid_m s) VarName)
              (''NetcdfIO::ReadVar: Netcdf dataset not found: '' @ VarName)) (\<lambda>varid.
       checked (nc_get_var_int (ncid_m s) varid)
         (''NetcdfIO::ReadVar: Unable to read dataset: '' @ VarName))"

definition ReadVar_float :: "util_env \<Rightarrow> NetcdfIO \<Rightarrow> string \<Rightarrow> real list outcome" where
  "ReadVar_float ux s VarName =
     obind (checked (nc_inq_varid (ncid_m s) VarName)
              (''NetcdfIO::ReadVar: Netcdf dataset not found: '' @ VarName)) (\<lambda>varid.
       checked (nc_get_var_float ux (ncid_m s) varid)
         (''NetcdfIO::ReadVar: Unable to read dataset: '' @ VarName))"

definition ReadVar_double :: "NetcdfIO \<Rightarrow> string \<Rightarrow> real list outcome" where
  "ReadVar_double s VarName =
     obind (checked (nc_inq_varid (ncid_m s) VarName)
              (''NetcdfIO::ReadVar: Netcdf dataset not found: '' @ VarName)) (\<lambda>varid.
       checked (nc_get_var_double (ncid_m s) varid)
         (''NetcdfIO::ReadVar: Unable to read dataset: '' @ VarName))"

text \<open>
  A buffer of \<open>n\<close> elements from \<open>new[]\<close>, filled by the library with all the values of a
  variable and then read at the indices of the distribution: more values than \<open>n\<close> is a
  write beyond the buffer, and an index at or beyond the number of values reads an
  element that was never written.
\<close>

definition read_at :: "nat \<Rightarrow> 'a list \<Rightarrow> nat list \<Rightarrow> 'a list outcome" where
  "read_at n vals indx =
     (if length vals \<le> n \<and> list_all (\<lambda>i. i < length vals) indx
      then Returned (map (\<lambda>i. vals ! i) indx)
      else UndefinedBehaviour)"

text \<open>\<open>VarData[ii] = vals[ii]\<close> for every \<open>ii\<close> below the number of values.\<close>

definition assign_all :: "any list \<Rightarrow> any list \<Rightarrow> any list outcome" where
  "assign_all vals VarData =
     (if length vals \<le> length VarData then Returned (vals @ drop (length vals) VarData)
      else UndefinedBehaviour)"

text \<open>The substitution of lines 333 to 335 and 345 to 347.\<close>

definition substitute_missing :: "real \<Rightarrow> real \<Rightarrow> real" where
  "substitute_missing fmiss x = (if x > missingthreshold then fmiss else x)"

text \<open>\<open>NetcdfIO::ReadVar_any\<close>, lines 291 to 356.\<close>

definition ReadVar_any :: "util_env \<Rightarrow> NetcdfIO \<Rightarrow> string \<Rightarrow> any list \<Rightarrow> any list outcome" where
  "ReadVar_any ux s VarName VarData =
     (let fmiss = missingValue ux in
      if starts_with ''date'' VarName then
        (if length (date_m s) = length (dist_m s) then assign_all (map any_int (date_m s)) VarData
         else Thrown ''Assertion failed: date_.size() == dist_->size()'')
      else if starts_with ''time'' VarName then
        (if length (time_m s) = length (dist_m s) then assign_all (map any_int (time_m s)) VarData
         else Thrown ''Assertion failed: time_.size() == dist_->size()'')
      else
        obind (checked (nc_inq_varid (ncid_m s) VarName)
                 (''NetcdfIO::ReadVar_any: Netcdf dataset not found: '' @ VarName)) (\<lambda>varid.
        case var_values (nc_vars (ncid_m s) ! varid) of
          IntValues xs \<Rightarrow>
            obind (ReadVar_int s VarName) (\<lambda>iData.
            obind (read_at (nfvlen_m s) iData (dist_m s)) (\<lambda>vals.
              assign_all (map any_int vals) VarData))
        | FloatValues xs \<Rightarrow>
            obind (ReadVar_float ux s VarName) (\<lambda>rData.
            obind (read_at (nfvlen_m s) rData (dist_m s)) (\<lambda>vals.
              assign_all (map (\<lambda>x. any_float (substitute_missing fmiss x)) vals) VarData))
        | DoubleValues xs \<Rightarrow>
            obind (ReadVar_double s VarName) (\<lambda>dData.
            obind (read_at (nfvlen_m s) dData (dist_m s)) (\<lambda>vals.
              assign_all
                (map (\<lambda>d. any_float (substitute_missing fmiss (to_float ux d))) vals) VarData))
        | CharValues cs \<Rightarrow> Returned VarData))"

text \<open>
  \<open>NetcdfIO::WriteVar\<close> for \<open>int*\<close>, \<open>float*\<close> and \<open>double*\<close>, lines 439 to 486: the
  variable is created on the dimension \<open>nlocs\<close> when the file does not have it, and the
  values are written. The library reads as many values as the size of the variable from
  the caller's buffer, so a shorter buffer is read beyond its end.
\<close>

definition find_or_create ::
  "NetcdfIO \<Rightarrow> string \<Rightarrow> nc_values \<Rightarrow> (nc_file \<times> nat) outcome" where
  "find_or_create s VarName no_values =
     (case nc_inq_varid (ncid_m s) VarName of
        Inr varid \<Rightarrow> Returned (ncid_m s, varid)
      | Inl e \<Rightarrow>
          checked (nc_def_var (ncid_m s) VarName no_values (nlocs_id_m s))
            (''NetcdfIO::WriteVar: Unable to create variable dataset: '' @ VarName))"

definition WriteVar_int :: "util_env \<Rightarrow> NetcdfIO \<Rightarrow> string \<Rightarrow> int list \<Rightarrow> NetcdfIO outcome" where
  "WriteVar_int ux s VarName VarData =
     obind (find_or_create s VarName (IntValues [])) (\<lambda>(f, varid).
       if length VarData < var_size f varid then UndefinedBehaviour
       else obind (checked (nc_put_var_int ux f varid VarData)
                     (''NetcdfIO::WriteVar: Unable to write dataset: '' @ VarName))
              (\<lambda>f'. Returned (s\<lparr>ncid_m := f'\<rparr>)))"

definition WriteVar_float :: "NetcdfIO \<Rightarrow> string \<Rightarrow> real list \<Rightarrow> NetcdfIO outcome" where
  "WriteVar_float s VarName VarData =
     obind (find_or_create s VarName (FloatValues [])) (\<lambda>(f, varid).
       if length VarData < var_size f varid then UndefinedBehaviour
       else obind (checked (nc_put_var_float f varid VarData)
                     (''NetcdfIO::WriteVar: Unable to write dataset: '' @ VarName))
              (\<lambda>f'. Returned (s\<lparr>ncid_m := f'\<rparr>)))"

definition WriteVar_double :: "util_env \<Rightarrow> NetcdfIO \<Rightarrow> string \<Rightarrow> real list \<Rightarrow> NetcdfIO outcome" where
  "WriteVar_double ux s VarName VarData =
     obind (find_or_create s VarName (DoubleValues [])) (\<lambda>(f, varid).
       if length VarData < var_size f varid then UndefinedBehaviour
       else obind (checked (nc_put_var_double ux f varid VarData)
                     (''NetcdfIO::WriteVar: Unable to write dataset: '' @ VarName))
              (\<lambda>f'. Returned (s\<lparr>ncid_m := f'\<rparr>)))"

text \<open>
  \<open>boost::any_cast<T>(VarData[ii])\<close> for every \<open>ii\<close> below \<open>nlocs()\<close>: it throws when an
  element holds another type.
\<close>

definition int_of_any :: "any \<Rightarrow> int option" where
  "int_of_any a = (case a of any_int i \<Rightarrow> Some i | any_float x \<Rightarrow> None | any_double x \<Rightarrow> None
                   | any_empty \<Rightarrow> None)"

definition float_of_any :: "any \<Rightarrow> real option" where
  "float_of_any a = (case a of any_float x \<Rightarrow> Some x | any_int i \<Rightarrow> None | any_double x \<Rightarrow> None
                     | any_empty \<Rightarrow> None)"

definition double_of_any :: "any \<Rightarrow> real option" where
  "double_of_any a = (case a of any_double x \<Rightarrow> Some x | any_int i \<Rightarrow> None | any_float x \<Rightarrow> None
                      | any_empty \<Rightarrow> None)"

definition any_cast_all :: "(any \<Rightarrow> 'a option) \<Rightarrow> any list \<Rightarrow> nat \<Rightarrow> 'a list outcome" where
  "any_cast_all cast VarData n =
     (if length VarData < n then UndefinedBehaviour
      else case those (map cast (take n VarData)) of
             None \<Rightarrow> Thrown ''boost::bad_any_cast''
           | Some xs \<Rightarrow> Returned xs)"

text \<open>
  \<open>NetcdfIO::WriteVar_any\<close>, lines 414 to 437. The type is the one of the first element;
  with no element there is none to look at. A column of another type is not written.
\<close>

definition WriteVar_any :: "util_env \<Rightarrow> NetcdfIO \<Rightarrow> string \<Rightarrow> any list \<Rightarrow> NetcdfIO outcome" where
  "WriteVar_any ux s VarName VarData =
     (case VarData of
        [] \<Rightarrow> UndefinedBehaviour
      | a # rest \<Rightarrow>
          (case a of
             any_int i \<Rightarrow>
               obind (any_cast_all int_of_any VarData (nlocs_m s)) (WriteVar_int ux s VarName)
           | any_float x \<Rightarrow>
               obind (any_cast_all float_of_any VarData (nlocs_m s)) (WriteVar_float s VarName)
           | any_double x \<Rightarrow>
               obind (any_cast_all double_of_any VarData (nlocs_m s)) (WriteVar_double ux s VarName)
           | any_empty \<Rightarrow> Returned s))"

text \<open>The names of the variables of a file after a variable has been written.\<close>

definition names_after :: "string list \<Rightarrow> string \<Rightarrow> string list" where
  "names_after names name = (if name \<in> set names then names else names @ [name])"

section \<open>ObsSpaceContainer: the multi-index container of boost::any columns\<close>

record Record =
  rec_group :: string
  rec_variable :: string
  rec_mode :: string
  rec_size :: nat
  rec_data :: "any list"

text \<open>
  Modelled from the spec: the insertion into the \<open>DataContainer\<close> of
  \<open>database/MultiIndexContainer.h\<close>, which the sources include and do not hold.
  "Primary: composite key (group, variable), unique." The records are kept in the order
  of their insertion, and an insertion that would repeat a key is refused.
\<close>

definition insert_record :: "Record \<Rightarrow> Record list \<Rightarrow> Record list" where
  "insert_record r db =
     (if list_ex (\<lambda>q. rec_group q = rec_group r \<and> rec_variable q = rec_variable r) db then db
      else db @ [r])"

text \<open>
  Modelled from the spec: the index \<open>by_variable\<close> of the \<open>DataContainer\<close>.
  "By-variable: iteration ordered by variable name alphabetically." Records of the same
  variable name stay in the order of their insertion.
\<close>

definition by_variable :: "Record list \<Rightarrow> Record list" where
  "by_variable db = sort_key rec_variable db"

record ObsSpaceContainer =
  DataContainer :: "Record list"
  container_nlocs_m :: nat
  container_nvars_m :: nat
  container_winbgn_m :: DateTime
  container_winend_m :: DateTime
  container_commMPI_m :: Comm

text \<open>
  Modelled from the spec: \<open>IodaIOfactory::Create\<close>, which the sources call and do not
  hold; the backend it makes is the NetCDF one ("NetCDF file: opens legacy observation
  files"). \<open>CreateFromFile\<close> gives it no sizes, and they are zero.
\<close>

definition IodaIOfactory_Create ::
  "util_env \<Rightarrow> (string \<Rightarrow> nc_file option) \<Rightarrow> NetcdfIO \<Rightarrow> string \<Rightarrow> string \<Rightarrow> DateTime \<Rightarrow> DateTime
   \<Rightarrow> Comm \<Rightarrow> nat \<Rightarrow> nat \<Rightarrow> nat \<Rightarrow> nat \<Rightarrow> NetcdfIO outcome" where
  "IodaIOfactory_Create ux fs m0 filename mode bgn endt commMPI Nlocs Nobs Nrecs Nvars =
     NetcdfIO_ctor ux fs m0 filename mode bgn endt commMPI Nlocs Nobs Nrecs Nvars"

text \<open>\<open>ObsSpaceContainer::CreateFromFile\<close>: the loop over \<open>fileio->varlist()\<close>.\<close>

definition db_name_of :: "string \<Rightarrow> string \<Rightarrow> string" where
  "db_name_of variable grp = (if length grp > 0 then variable @ ''@'' @ grp else variable)"

definition group_of :: "string \<Rightarrow> string" where
  "group_of grp = (if length grp > 0 then grp else ''GroupUndefined'')"

fun load_variables ::
  "util_env \<Rightarrow> NetcdfIO \<Rightarrow> (string \<times> string) list \<Rightarrow> Record list \<Rightarrow> Record list outcome" where
  "load_variables ux fileio [] db = Returned db"
| "load_variables ux fileio ((variable, grp) # rest) db =
     obind (ReadVar_any ux fileio (db_name_of variable grp)
              (replicate (nlocs_m fileio) any_empty)) (\<lambda>vect.
       load_variables ux fileio rest
         (insert_record \<lparr>rec_group = group_of grp, rec_variable = variable, rec_mode = ''r'',
                          rec_size = nlocs_m fileio, rec_data = vect\<rparr> db))"

definition CreateFromFile ::
  "util_env \<Rightarrow> (string \<Rightarrow> nc_file option) \<Rightarrow> NetcdfIO \<Rightarrow> ObsSpaceContainer \<Rightarrow> string \<Rightarrow> string
   \<Rightarrow> DateTime \<Rightarrow> DateTime \<Rightarrow> Comm \<Rightarrow> ObsSpaceContainer outcome" where
  "CreateFromFile ux fs m0 c filename mode bgn endt commMPI =
     obind (IodaIOfactory_Create ux fs m0 filename mode bgn endt commMPI 0 0 0 0) (\<lambda>fileio.
     obind (load_variables ux fileio (vname_group_m fileio) (DataContainer c)) (\<lambda>db.
       Returned (c\<lparr>container_nlocs_m := nlocs_m fileio, container_nvars_m := nvars_m fileio,
                   DataContainer := db\<rparr>)))"

text \<open>
  \<open>ObsSpaceContainer::dump\<close>: the backend is created in mode \<open>W\<close>, and every record of
  the by-variable view is written. The result is the backend, with the file it has
  written.
\<close>

text \<open>A column that \<open>WriteVar_any\<close> writes: its first element holds a value.\<close>

definition holds_values :: "Record \<Rightarrow> bool" where
  "holds_values r = (case rec_data r of [] \<Rightarrow> False | a # rest \<Rightarrow> a \<noteq> any_empty)"

definition dump_name :: "Record \<Rightarrow> string" where
  "dump_name r = rec_variable r @ ''@'' @ rec_group r"

fun write_records :: "util_env \<Rightarrow> NetcdfIO \<Rightarrow> Record list \<Rightarrow> NetcdfIO outcome" where
  "write_records ux fileio [] = Returned fileio"
| "write_records ux fileio (r # rs) =
     obind (WriteVar_any ux fileio (dump_name r) (rec_data r)) (\<lambda>fileio'.
       write_records ux fileio' rs)"

definition dump ::
  "util_env \<Rightarrow> (string \<Rightarrow> nc_file option) \<Rightarrow> NetcdfIO \<Rightarrow> ObsSpaceContainer \<Rightarrow> string
   \<Rightarrow> NetcdfIO outcome" where
  "dump ux fs m0 c file_name =
     obind (IodaIOfactory_Create ux fs m0 file_name ''W'' (container_winbgn_m c)
              (container_winend_m c) (container_commMPI_m c)
              (container_nlocs_m c) 0 0 (container_nvars_m c)) (\<lambda>fileio.
       write_records ux fileio (by_variable (DataContainer c)))"

text \<open>
  What a file that had no variable of that name holds after one column has been written
  to it: a variable of rank 1 on the dimension \<open>nlocs\<close>, of the type of the first element
  of the column, with the first \<open>nlocs()\<close> values of the column. A column whose first
  element is empty leaves no variable.
\<close>

definition column_values :: "nat \<Rightarrow> any list \<Rightarrow> nc_values option" where
  "column_values n VarData =
     (case VarData of
        [] \<Rightarrow> None
      | a # rest \<Rightarrow>
          (case a of
             any_int i \<Rightarrow> Some (IntValues (List.map_filter int_of_any (take n VarData)))
           | any_float x \<Rightarrow> Some (FloatValues (List.map_filter float_of_any (take n VarData)))
           | any_double x \<Rightarrow> Some (DoubleValues (List.map_filter double_of_any (take n VarData)))
           | any_empty \<Rightarrow> None))"

definition written_var :: "int \<Rightarrow> nat \<Rightarrow> Record \<Rightarrow> nc_var option" where
  "written_var dimid n r =
     map_option
       (\<lambda>vals. \<lparr>var_name = rec_variable r @ ''@'' @ rec_group r, var_dimids = [dimid],
                 var_values = vals\<rparr>)
       (column_values n (rec_data r))"

text \<open>
  A column on which \<open>WriteVar_any\<close> neither reads beyond the end nor meets a
  \<open>bad_any_cast\<close>: it begins with an empty element, or it has \<open>nlocs()\<close> elements or more
  and the first \<open>nlocs()\<close> of them are of the type of the first.
\<close>

definition writable :: "nat \<Rightarrow> Record \<Rightarrow> bool" where
  "writable n r =
     (case rec_data r of
        [] \<Rightarrow> False
      | a # rest \<Rightarrow>
          (case a of
             any_int i \<Rightarrow>
               n \<le> length (rec_data r) \<and> list_all (\<lambda>b. int_of_any b \<noteq> None) (take n (rec_data r))
           | any_float x \<Rightarrow>
               n \<le> length (rec_data r) \<and> list_all (\<lambda>b. float_of_any b \<noteq> None) (take n (rec_data r))
           | any_double x \<Rightarrow>
               n \<le> length (rec_data r) \<and> list_all (\<lambda>b. double_of_any b \<noteq> None) (take n (rec_data r))
           | any_empty \<Rightarrow> True))"

section \<open>ObsSpace\<close>

datatype obsdb = Radiance | Radiosonde | SeaIceFraction | StericHeight | SeaIceThickness | Aod

record ObsSpace =
  obsname_m :: string
  winbgn_m :: DateTime
  winend_m :: DateTime
  keyOspace_m :: "obsdb option"

text \<open>
  \<open>ObsSpace::ObsSpace\<close>. The configuration is a lookup of strings; \<open>getString\<close> of a key
  that is absent throws. \<open>keyOspace_\<close> records which of the Fortran set-up routines ran:
  none when no branch of the chain is taken.
\<close>

definition setup_for :: "string \<Rightarrow> obsdb option" where
  "setup_for obsname =
     (if obsname = ''Radiance'' then Some Radiance
      else if obsname = ''Radiosonde'' then Some Radiosonde
      else if obsname = ''SeaIceFraction'' then Some SeaIceFraction
      else if obsname = ''StericHeight'' then Some StericHeight
      else if obsname = ''SeaIceThickness'' then Some SeaIceThickness
      else if obsname = ''Aod'' then Some Aod
      else None)"

definition ObsSpace_ctor :: "(string \<Rightarrow> string option) \<Rightarrow> DateTime \<Rightarrow> DateTime \<Rightarrow> ObsSpace outcome" where
  "ObsSpace_ctor config bgn endt =
     (case config ''ObsType'' of
        None \<Rightarrow> Thrown ''ObsType''
      | Some obsname \<Rightarrow>
          Returned \<lparr>obsname_m = obsname, winbgn_m = bgn, winend_m = endt,
                    keyOspace_m = setup_for obsname\<rparr>)"

definition recognized_ObsType :: "string \<Rightarrow> bool" where
  "recognized_ObsType obsname =
     (obsname \<in> set [''Radiance'', ''Radiosonde'', ''SeaIceFraction'', ''StericHeight'',
                      ''SeaIceThickness'', ''Aod''])"

section \<open>ObsSpaceContainer of one type, and the segment helpers of its test\<close>

record 'a VarRecord =
  vr_group :: string
  vr_variable :: string
  vr_shape :: "nat list"
  vr_data :: "'a list"

datatype db_error = NotFound | OutOfRange

definition same_var :: "string \<Rightarrow> string \<Rightarrow> 'a VarRecord \<Rightarrow> bool" where
  "same_var GroupName VarName r = (vr_group r = GroupName \<and> vr_variable r = VarName)"

text \<open>
  Modelled from the spec: \<open>ObsSpaceContainer<VarType>::StoreToDb\<close> of
  \<open>ioda/core/ObsSpaceContainer.h\<close>, which the test includes and the sources do not hold.
  "\<open>storeToDb<T>(group, variable, shape, data, append=false)\<close>: if \<open>append\<close>, the
  variable's leading extent grows by \<open>shape[0]\<close>; all other extents must match."
  "A Variable record is created by the first store call with its name." "Appending to a
  variable preserves its index entry." The buffer of a variable grows at its end by the
  data appended.
\<close>

definition StoreToDb ::
  "string \<Rightarrow> string \<Rightarrow> nat list \<Rightarrow> 'a list \<Rightarrow> bool \<Rightarrow> 'a VarRecord list \<Rightarrow> 'a VarRecord list" where
  "StoreToDb GroupName VarName VarShape VarData Append db =
     (if list_ex (same_var GroupName VarName) db then
        map (\<lambda>r. if same_var GroupName VarName r then
                    (if Append
                     then r\<lparr>vr_shape := (hd (vr_shape r) + hd VarShape) # tl (vr_shape r),
                            vr_data := vr_data r @ VarData\<rparr>
                     else r\<lparr>vr_shape := VarShape, vr_data := VarData\<rparr>)
                  else r) db
      else db @ [\<lparr>vr_group = GroupName, vr_variable = VarName, vr_shape = VarShape,
                   vr_data = VarData\<rparr>])"

text \<open>
  Modelled from the spec: \<open>ObsSpaceContainer<VarType>::LoadFromDb\<close> of the same header.
  "\<open>loadFromDb<T>(group, variable, shape, out, start=0, count=full)\<close>: partial read along
  the leading axis." "Selections outside the variable's current shape fail with
  OutOfRange." A load of \<open>count\<close> elements from \<open>start\<close> reads that part of the buffer; it
  fails when the variable is absent or the part is not inside the buffer.
\<close>

definition LoadFromDb ::
  "string \<Rightarrow> string \<Rightarrow> nat list \<Rightarrow> nat \<Rightarrow> nat \<Rightarrow> 'a VarRecord list \<Rightarrow> db_error + 'a list" where
  "LoadFromDb GroupName VarName VarShape Start Count db =
     (case find (same_var GroupName VarName) db of
        None \<Rightarrow> Inl NotFound
      | Some r \<Rightarrow>
          if Start + Count \<le> length (vr_data r) then Inr (take Count (drop Start (vr_data r)))
          else Inl OutOfRange)"

text \<open>
  \<open>StoreVarSegments\<close> and \<open>LoadVarSegments\<close> of \<open>test/core/ObsSpaceContainer.h\<close>, lines 42
  to 72. A segment that is not inside \<open>VarData\<close> makes an iterator, or a write, beyond the
  vector; so does a list of counts shorter than the list of starts.
\<close>

fun StoreVarSegments ::
  "string \<Rightarrow> string \<Rightarrow> nat list \<Rightarrow> 'a list \<Rightarrow> nat list \<Rightarrow> nat list \<Rightarrow> 'a VarRecord list
   \<Rightarrow> 'a VarRecord list outcome" where
  "StoreVarSegments GroupName VarName VarShape VarData [] Counts Container = Returned Container"
| "StoreVarSegments GroupName VarName VarShape VarData (s # Starts) [] Container =
     UndefinedBehaviour"
| "StoreVarSegments GroupName VarName VarShape VarData (s # Starts) (c # Counts) Container =
     (if s + c \<le> length VarData then
        StoreVarSegments GroupName VarName VarShape VarData Starts Counts
          (StoreToDb GroupName VarName VarShape (take c (drop s VarData)) True Container)
      else UndefinedBehaviour)"

text \<open>\<open>VarData[Starts[i]+j] = VarSegment[j]\<close> for every \<open>j\<close> below the size of the segment.\<close>

definition copy_segment :: "'a list \<Rightarrow> nat \<Rightarrow> 'a list \<Rightarrow> 'a list outcome" where
  "copy_segment VarData s VarSegment =
     (if s + length VarSegment \<le> length VarData \<or> VarSegment = []
      then Returned (take s VarData @ VarSegment @ drop (s + length VarSegment) VarData)
      else UndefinedBehaviour)"

fun LoadVarSegments ::
  "string \<Rightarrow> string \<Rightarrow> nat list \<Rightarrow> 'a list \<Rightarrow> nat list \<Rightarrow> nat list \<Rightarrow> 'a VarRecord list
   \<Rightarrow> 'a list outcome" where
  "LoadVarSegments GroupName VarName VarShape VarData [] Counts Container = Returned VarData"
| "LoadVarSegments GroupName VarName VarShape VarData (s # Starts) [] Container =
     UndefinedBehaviour"
| "LoadVarSegments GroupName VarName VarShape VarData (s # Starts) (c # Counts) Container =
     (case LoadFromDb GroupName VarName VarShape s c Container of
        Inl e \<Rightarrow> Thrown (case e of NotFound \<Rightarrow> ''NotFound'' | OutOfRange \<Rightarrow> ''OutOfRange'')
      | Inr VarSegment \<Rightarrow>
          obind (copy_segment VarData s VarSegment) (\<lambda>VarData'.
            LoadVarSegments GroupName VarName VarShape VarData' Starts Counts Container))"

text \<open>A position is covered when one of the segments holds it.\<close>

definition covered :: "nat list \<Rightarrow> nat list \<Rightarrow> nat \<Rightarrow> bool" where
  "covered Starts Counts j = list_ex (\<lambda>(s, c). s \<le> j \<and> j < s + c) (zip Starts Counts)"

text \<open>
  The starts that \<open>testSegmentedStoreLoad\<close> computes from the counts, lines 327 to 332:
  the first is 0, each next one is the one before plus the count before.
\<close>

fun starts_from :: "nat \<Rightarrow> nat list \<Rightarrow> nat list" where
  "starts_from s [] = []"
| "starts_from s (c # Counts) = s # starts_from (s + c) Counts"

definition Starts_of :: "nat list \<Rightarrow> nat list" where
  "Starts_of Counts = starts_from 0 Counts"

section \<open>An instance of the parameters, for the examples\<close>

text \<open>
  The examples need the parameters at concrete values. The instance counts a \<open>DateTime\<close>
  in seconds since 1970-01-01T00:00:00Z in the proleptic Gregorian calendar, takes a
  large negative number for the sentinel, and computes with the reals themselves: the
  examples use only values on which single precision is exact.
\<close>

definition days_from_civil :: "int \<Rightarrow> int \<Rightarrow> int \<Rightarrow> int" where
  "days_from_civil y m d =
     (let y' = (if m \<le> 2 then y - 1 else y);
          era = y' div 400;
          yoe = y' - era * 400;
          doy = (153 * (if m > 2 then m - 3 else m + 9) + 2) div 5 + d - 1;
          doe = yoe * 365 + yoe div 4 - yoe div 100 + doy
      in era * 146097 + doe - 719468)"

definition civil_from_days :: "int \<Rightarrow> int \<times> int \<times> int" where
  "civil_from_days z =
     (let z' = z + 719468;
          era = z' div 146097;
          doe = z' - era * 146097;
          yoe = (doe - doe div 1460 + doe div 36524 - doe div 146096) div 365;
          doy = doe - (365 * yoe + yoe div 4 - yoe div 100);
          mp = (5 * doy + 2) div 153;
          d = doy - (153 * mp + 2) div 5 + 1;
          m = (if mp < 10 then mp + 3 else mp - 9);
          y = yoe + era * 400
      in (if m \<le> 2 then y + 1 else y, m, d))"

definition example_setints :: "int \<Rightarrow> int \<Rightarrow> DateTime" where
  "example_setints ymd secs =
     days_from_civil (ymd div 10000) (ymd div 100 mod 100) (ymd mod 100) * 86400 + secs"

definition example_toYYYYMMDDhhmmss :: "DateTime \<Rightarrow> int \<times> int \<times> int \<times> int \<times> int \<times> int" where
  "example_toYYYYMMDDhhmmss t =
     (case civil_from_days (t div 86400) of
        (y, m, d) \<Rightarrow> (y, m, d, t mod 86400 div 3600, t mod 3600 div 60, t mod 60))"

definition example_env :: util_env where
  "example_env =
     \<lparr>datetime_setints_f = example_setints,
      toYYYYMMDDhhmmss = example_toYYYYMMDDhhmmss,
      default_DateTime = 0,
      missingValue = - 336879530000000000000000000000000000000,
      float_mult = (\<lambda>x y. x * y),
      to_float = (\<lambda>x. x)\<rparr>"

text \<open>
  The members before the constructor body runs, for the examples: every id is 0 and every
  flag is false.
\<close>

definition members0 :: NetcdfIO where
  "members0 =
     \<lparr>fname_m = [], fmode_m = [], nlocs_m = 0, nobs_m = 0, nrecs_m = 0, nvars_m = 0,
      nfvlen_m = 0, ncid_m = \<lparr>nc_dims = [], nc_vars = [], nc_atts = []\<rparr>,
      nrecs_id_m = 0, nobs_id_m = 0, nlocs_id_m = 0, nvars_id_m = 0, nchans_id_m = 0,
      have_nrecs_m = False, have_nobs_m = False, have_nlocs_m = False, have_nvars_m = False,
      have_nchans_m = False, vname_group_m = [], dist_m = [], date_m = [], time_m = []\<rparr>"

text \<open>A file system with one file, and a communicator of one rank.\<close>

definition one_file :: "nc_file \<Rightarrow> string \<Rightarrow> nc_file option" where
  "one_file f = (\<lambda>p. if p = ''in.nc'' then Some f else None)"

definition one_rank :: Comm where
  "one_rank = \<lparr>comm_rank = 0, comm_size = 1\<rparr>"

text \<open>A file of the new layout with one column of floats, \<open>x@ObsValue\<close>.\<close>

definition float_file :: "real list \<Rightarrow> nc_file" where
  "float_file xs =
     \<lparr>nc_dims = [(''nlocs'', length xs), (''nobs'', length xs), (''nrecs'', length xs),
                 (''nvars'', 1)],
      nc_vars = [\<lparr>var_name = ''x@ObsValue'', var_dimids = [0], var_values = FloatValues xs\<rparr>],
      nc_atts = []\<rparr>"

text \<open>
  A file of the new layout with the attribute \<open>date_time\<close>, the offsets in
  \<open>time@MetaData\<close> and a column \<open>x@ObsValue\<close>.
\<close>

definition time_file :: "int \<Rightarrow> real list \<Rightarrow> real list \<Rightarrow> nc_file" where
  "time_file date_time offsets xs =
     \<lparr>nc_dims = [(''nlocs'', length offsets), (''nobs'', length offsets),
                 (''nrecs'', length offsets), (''nvars'', 1)],
      nc_vars = [\<lparr>var_name = ''time@MetaData'', var_dimids = [0],
                   var_values = FloatValues offsets\<rparr>,
                 \<lparr>var_name = ''x@ObsValue'', var_dimids = [0], var_values = FloatValues xs\<rparr>],
      nc_atts = [(''date_time'', date_time)]\<rparr>"

text \<open>The reader of the examples: the one file, opened for read by the one rank.\<close>

definition reader_of :: "nc_file \<Rightarrow> DateTime \<Rightarrow> DateTime \<Rightarrow> NetcdfIO outcome" where
  "reader_of f bgn endt =
     NetcdfIO_ctor example_env (one_file f) members0 ''in.nc'' ''r'' bgn endt one_rank 0 0 0 0"

definition returned_or :: "'a \<Rightarrow> 'a outcome \<Rightarrow> 'a" where
  "returned_or d r = (case r of Returned x \<Rightarrow> x | Aborted m \<Rightarrow> d | Thrown m \<Rightarrow> d
                      | UndefinedBehaviour \<Rightarrow> d)"

text \<open>
  Files of the old layout (no dimension \<open>nrecs\<close>). The legacy radiance file of the
  specification: 20 observations on 4 channels, the attribute \<open>date_time\<close> at 2018041500
  and the variable \<open>time\<close> at 0.0 throughout, with a column \<open>lat\<close>; its window is from
  2018-04-14T23:30:00Z to 2018-04-15T00:30:00Z. A file with channels and without the
  attribute, with a column on \<open>nobs\<close> and one on \<open>nchans\<close>.
\<close>

definition radiance_file :: nc_file where
  "radiance_file =
     \<lparr>nc_dims = [(''nobs'', 20), (''nchans'', 4)],
      nc_vars = [\<lparr>var_name = ''time'', var_dimids = [0],
                   var_values = FloatValues (replicate 20 0)\<rparr>,
                 \<lparr>var_name = ''lat'', var_dimids = [0],
                   var_values = FloatValues (map real [0..<20])\<rparr>],
      nc_atts = [(''date_time'', 2018041500)]\<rparr>"

definition radiance_bgn :: DateTime where
  "radiance_bgn = example_setints 20180414 84600"

definition radiance_end :: DateTime where
  "radiance_end = example_setints 20180415 1800"

definition legacy_file_B :: nc_file where
  "legacy_file_B =
     \<lparr>nc_dims = [(''nobs'', 8), (''nchans'', 4)],
      nc_vars = [\<lparr>var_name = ''lat'', var_dimids = [0],
                   var_values = FloatValues [1, 2, 3, 4, 5, 6, 7, 8]\<rparr>,
                 \<lparr>var_name = ''frequency'', var_dimids = [1],
                   var_values = FloatValues [1, 2, 3, 4]\<rparr>],
      nc_atts = []\<rparr>"


text \<open>
  The window from 2018-04-15T00:00:00Z to 2018-04-15T00:30:00Z, a file with offsets of
  minus 30, 0, 15 and 30 minutes from 2018-04-15T00, and the readers of the examples.
\<close>

definition window_bgn :: DateTime where
  "window_bgn = example_setints 20180415 0"

definition window_end :: DateTime where
  "window_end = example_setints 20180415 1800"

definition window_file :: nc_file where
  "window_file = time_file 2018041500 [- 1 / 2, 0, 1 / 4, 1 / 2] [1, 2, 3, 4]"

definition window_reader :: NetcdfIO where
  "window_reader = returned_or members0 (reader_of window_file window_bgn window_end)"

definition float_reader :: NetcdfIO where
  "float_reader = returned_or members0 (reader_of (float_file [1, 1000000000, - 2]) 0 10)"



text \<open>
  A file of the new layout with two locations and four variables on \<open>nlocs\<close>: the floats
  \<open>x@ObsValue\<close>, the floats \<open>lat\<close> (no group), the integers \<open>n@MetaData\<close> and the text
  \<open>station@MetaData\<close>. The container that \<open>CreateFromFile\<close> loads from it, into an empty
  one.
\<close>

definition mixed_file :: nc_file where
  "mixed_file =
     \<lparr>nc_dims = [(''nlocs'', 2), (''nobs'', 2), (''nrecs'', 2), (''nvars'', 1)],
      nc_vars = [\<lparr>var_name = ''x@ObsValue'', var_dimids = [0], var_values = FloatValues [1, 2]\<rparr>,
                 \<lparr>var_name = ''lat'', var_dimids = [0], var_values = FloatValues [3, 4]\<rparr>,
                 \<lparr>var_name = ''n@MetaData'', var_dimids = [0], var_values = IntValues [5, 6]\<rparr>,
                 \<lparr>var_name = ''station@MetaData'', var_dimids = [0],
                   var_values = CharValues ''ab''\<rparr>],
      nc_atts = []\<rparr>"

text \<open>
  Containers of one location: one with the column \<open>lat\<close> of the group \<open>GroupUndefined\<close>,
  one with two records of the same name \<open>a@b@c\<close>, and one whose column of two locations
  holds an integer and then a float.
\<close>

definition undefined_group_container :: ObsSpaceContainer where
  "undefined_group_container =
     \<lparr>DataContainer =
        [\<lparr>rec_group = ''GroupUndefined'', rec_variable = ''lat'', rec_mode = ''r'', rec_size = 1,
           rec_data = [any_float 1]\<rparr>],
      container_nlocs_m = 1, container_nvars_m = 1,
      container_winbgn_m = window_bgn, container_winend_m = window_end,
      container_commMPI_m = one_rank\<rparr>"

definition same_name_container :: ObsSpaceContainer where
  "same_name_container =
     \<lparr>DataContainer =
        [\<lparr>rec_group = ''b@c'', rec_variable = ''a'', rec_mode = ''r'', rec_size = 1,
           rec_data = [any_float 1]\<rparr>,
         \<lparr>rec_group = ''c'', rec_variable = ''a@b'', rec_mode = ''r'', rec_size = 1,
           rec_data = [any_float 2]\<rparr>],
      container_nlocs_m = 1, container_nvars_m = 1,
      container_winbgn_m = window_bgn, container_winend_m = window_end,
      container_commMPI_m = one_rank\<rparr>"

definition mixed_column_container :: ObsSpaceContainer where
  "mixed_column_container =
     \<lparr>DataContainer =
        [\<lparr>rec_group = ''ObsValue'', rec_variable = ''x'', rec_mode = ''r'', rec_size = 2,
           rec_data = [any_int 1, any_float 2]\<rparr>],
      container_nlocs_m = 2, container_nvars_m = 1,
      container_winbgn_m = window_bgn, container_winend_m = window_end,
      container_commMPI_m = one_rank\<rparr>"

definition empty_container :: ObsSpaceContainer where
  "empty_container =
     \<lparr>DataContainer = [], container_nlocs_m = 0, container_nvars_m = 0,
      container_winbgn_m = 0, container_winend_m = 10, container_commMPI_m = one_rank\<rparr>"

definition loaded_container :: ObsSpaceContainer where
  "loaded_container =
     returned_or empty_container
       (CreateFromFile example_env (one_file mixed_file) members0 empty_container ''in.nc'' ''r''
          0 10 one_rank)"

section \<open>Auxiliary facts\<close>

lemma RoundRobin_distribution_filter:
  "RoundRobin_distribution comm N = filter (\<lambda>k. k mod comm_size comm = comm_rank comm) [0..<N]"
  unfolding RoundRobin_distribution_def RoundRobin_groups_def
  by (rule filter_cong) simp_all

lemma RoundRobin_distribution_sorted:
  "sorted (RoundRobin_distribution comm N) \<and> distinct (RoundRobin_distribution comm N)"
  by (simp add: RoundRobin_distribution_filter sorted_wrt_filter)

lemma obind_Returned_iff:
  "(obind m f = Returned y) = (\<exists>x. m = Returned x \<and> f x = Returned y)"
  by (cases m) simp_all

lemma checked_Returned_iff: "(checked r msg = Returned x) = (r = Inr x)"
  by (cases r) (auto simp: checked_def CheckNcCall_def retval_def NC_NOERR_def)

lemma checked_Inr: "checked (Inr x) msg = Returned x"
  by (simp add: checked_def CheckNcCall_def retval_def)

lemma read_at_Returned:
  "read_at n vals indx = Returned r \<Longrightarrow> r = map (\<lambda>i. vals ! i) indx"
  by (simp add: read_at_def split: if_splits)

lemma assign_all_Returned:
  "assign_all vals VarData = Returned out \<Longrightarrow> ii < length vals \<Longrightarrow> out ! ii = vals ! ii"
  by (auto simp: assign_all_def nth_append split: if_splits)

lemma ReadVar_any_FloatValues:
  assumes "ReadVar_any ux s VarName VarData = Returned out"
    and "\<not> starts_with ''date'' VarName" and "\<not> starts_with ''time'' VarName"
    and "nc_inq_varid (ncid_m s) VarName = Inr varid"
    and "var_values (nc_vars (ncid_m s) ! varid) = FloatValues raw"
  shows "assign_all (map (\<lambda>i. any_float (substitute_missing (missingValue ux) (raw ! i))) (dist_m s))
           VarData = Returned out"
  using assms
  by (auto simp: ReadVar_any_def ReadVar_float_def nc_get_var_float_def obind_Returned_iff
      checked_Inr Let_def comp_def dest!: read_at_Returned)

lemma ReadVar_any_DoubleValues:
  assumes "ReadVar_any ux s VarName VarData = Returned out"
    and "\<not> starts_with ''date'' VarName" and "\<not> starts_with ''time'' VarName"
    and "nc_inq_varid (ncid_m s) VarName = Inr varid"
    and "var_values (nc_vars (ncid_m s) ! varid) = DoubleValues raw"
  shows "assign_all
           (map (\<lambda>i. any_float (substitute_missing (missingValue ux) (to_float ux (raw ! i)))) (dist_m s))
           VarData = Returned out"
  using assms
  by (auto simp: ReadVar_any_def ReadVar_double_def nc_get_var_double_def obind_Returned_iff
      checked_Inr Let_def comp_def dest!: read_at_Returned)

lemma static_cast_int_truncates:
  "\<bar>real_of_int (static_cast_int x)\<bar> \<le> \<bar>x\<bar> \<and> \<bar>x\<bar> < \<bar>real_of_int (static_cast_int x)\<bar> + 1
   \<and> (0 \<le> x \<longrightarrow> 0 \<le> static_cast_int x) \<and> (x \<le> 0 \<longrightarrow> static_cast_int x \<le> 0)"
  unfolding static_cast_int_def by (auto; linarith)

lemma ReadDateTime_Returned:
  assumes "ReadDateTime ux s = Returned VarDateTime"
  shows "\<exists>dtvals varid OffsetTime.
           nc_get_att_int (ncid_m s) ''date_time'' = Inr dtvals
         \<and> time_variable (ncid_m s) = Returned varid
         \<and> nc_get_var_float ux (ncid_m s) varid = Inr OffsetTime
         \<and> length OffsetTime \<le> nfvlen_m s
         \<and> VarDateTime = map (\<lambda>x. reference_DateTime ux dtvals + offset_seconds ux x) OffsetTime
                          @ replicate (nfvlen_m s - length OffsetTime) (default_DateTime ux)"
proof -
  let ?f = "ncid_m s"
  from assms obtain dtvals varid
    where att: "nc_get_att_int ?f ''date_time'' = Inr dtvals"
      and tv: "time_variable ?f = Returned varid"
      and rest: "(case var_dimids (nc_vars ?f ! varid) of
          [] \<Rightarrow> UndefinedBehaviour
        | [dimid] \<Rightarrow>
          obind (checked (nc_inq_dimlen ?f dimid)
                   ''NetcdfIO::ReadDateTime: Unable to find size of dimension of time variable'') (\<lambda>vsize.
          obind (checked (nc_get_var_float ux ?f varid)
                   ''NetcdfIO::ReadDateTime: Unable to read time variable: '') (\<lambda>OffsetTime.
          if length OffsetTime = vsize \<and> vsize \<le> nfvlen_m s
             \<and> list_all (\<lambda>x. fits_int (offset_seconds ux x)) OffsetTime
          then Returned (map (\<lambda>x. reference_DateTime ux dtvals + offset_seconds ux x) OffsetTime
                         @ replicate (nfvlen_m s - vsize) (default_DateTime ux))
          else UndefinedBehaviour))
        | dimid # d # ds \<Rightarrow> UndefinedBehaviour) = Returned VarDateTime"
    by (auto simp: ReadDateTime_def Let_def obind_Returned_iff checked_Returned_iff)
  from rest obtain dimid where dims: "var_dimids (nc_vars ?f ! varid) = [dimid]"
    by (cases "var_dimids (nc_vars ?f ! varid)"; cases "tl (var_dimids (nc_vars ?f ! varid))") auto
  from rest dims obtain OffsetTime
    where "nc_get_var_float ux ?f varid = Inr OffsetTime"
      and "length OffsetTime \<le> nfvlen_m s"
      and "VarDateTime = map (\<lambda>x. reference_DateTime ux dtvals + offset_seconds ux x) OffsetTime
                          @ replicate (nfvlen_m s - length OffsetTime) (default_DateTime ux)"
    by (auto simp: obind_Returned_iff checked_Returned_iff split: if_splits)
  with att tv show ?thesis by blast
qed

lemma walk_variables_concat:
  "walk_variables nlocs_id vs acc = acc @ concat (map (valid_entries nlocs_id) vs)"
  by (induction vs arbitrary: acc) simp_all

lemma erase_loop_filter_aux:
  "list_all P ys \<Longrightarrow> erase_loop (ys @ xs) (filter (\<lambda>x. \<not> P x) xs) = ys @ filter P xs"
proof (induction xs arbitrary: ys)
  case Nil
  then show ?case by simp
next
  case (Cons x xs)
  show ?case
  proof (cases "P x")
    case True
    with Cons.prems have "list_all P (ys @ [x])" by simp
    from Cons.IH [OF this] True show ?thesis by simp
  next
    case False
    with Cons.prems have "x \<notin> set ys" by (auto simp: list_all_iff)
    then have "remove1 x (ys @ x # xs) = ys @ xs" by (simp add: remove1_append)
    with False Cons.IH [OF Cons.prems] show ?thesis by (simp add: erase_def)
  qed
qed

lemma erase_loop_filter: "erase_loop xs (filter (\<lambda>x. \<not> P x) xs) = filter P xs"
  using erase_loop_filter_aux [of P "[]" xs] by simp

lemma window_loop_eq:
  "window_loop ux datetime bgn endt indx (date, time, rm)
   = (date @ map (\<lambda>i. yyyymmdd ux (datetime ! i)) (filter (inside datetime bgn endt) indx),
      time @ map (\<lambda>i. hhmmss ux (datetime ! i)) (filter (inside datetime bgn endt) indx),
      rm @ filter (\<lambda>i. \<not> inside datetime bgn endt i) indx)"
  by (induction indx arbitrary: date time rm)
    (auto simp: inside_def yyyymmdd_def hhmmss_def split: prod.splits)

lemma query_dims_keeps [simp]:
  "ncid_m (query_dims s) = ncid_m s" "nfvlen_m (query_dims s) = nfvlen_m s"
  "nobs_m (query_dims s) = nobs_m s" "nvars_m (query_dims s) = nvars_m s"
  "nlocs_m (query_dims s) = nlocs_m s" "nrecs_m (query_dims s) = nrecs_m s"
  "vname_group_m (query_dims s) = vname_group_m s" "dist_m (query_dims s) = dist_m s"
  "date_m (query_dims s) = date_m s" "time_m (query_dims s) = time_m s"
  by (simp_all add: query_dims_def Let_def)

lemma set_sizes_keeps:
  assumes "set_sizes s = Returned s1"
  shows "ncid_m s1 = ncid_m s" "nlocs_id_m s1 = nlocs_id_m s" "vname_group_m s1 = vname_group_m s"
    "dist_m s1 = dist_m s" "date_m s1 = date_m s" "time_m s1 = time_m s"
    "have_nrecs_m s1 = have_nrecs_m s" "have_nchans_m s1 = have_nchans_m s"
    "nobs_id_m s1 = nobs_id_m s" "nchans_id_m s1 = nchans_id_m s"
  using assms by (auto simp: set_sizes_def Let_def split: if_splits)

lemma ReadDateTime_cong:
  "ncid_m s' = ncid_m s \<Longrightarrow> nfvlen_m s' = nfvlen_m s \<Longrightarrow> ReadDateTime ux s' = ReadDateTime ux s"
  unfolding ReadDateTime_def by (simp cong: list.case_cong if_cong)

lemma apply_window_keeps:
  assumes "apply_window ux s3 bgn endt = Returned s4"
  shows "ncid_m s4 = ncid_m s3" "nfvlen_m s4 = nfvlen_m s3" "nlocs_id_m s4 = nlocs_id_m s3"
    "nobs_m s4 = nobs_m s3" "nvars_m s4 = nvars_m s3" "vname_group_m s4 = vname_group_m s3"
proof -
  from assms obtain datetime where
    c: "(case window_loop ux datetime bgn endt (dist_m s3) (date_m s3, time_m s3, []) of
         (date, time, to_be_removed) \<Rightarrow>
           (let indx = erase_loop (dist_m s3) to_be_removed in
            if length date = length indx
            then Returned (s3\<lparr>date_m := date, time_m := time, dist_m := indx\<rparr>)
            else Thrown ''Assertion failed: date_.size() == dist_->size()'')) = Returned s4"
    by (auto simp: apply_window_def obind_Returned_iff)
  obtain date time rm where
    "window_loop ux datetime bgn endt (dist_m s3) (date_m s3, time_m s3, []) = (date, time, rm)"
    by (cases "window_loop ux datetime bgn endt (dist_m s3) (date_m s3, time_m s3, [])") auto
  with c have "s4 = s3\<lparr>date_m := date, time_m := time, dist_m := erase_loop (dist_m s3) rm\<rparr>"
    by (auto simp: Let_def split: if_splits)
  then show "ncid_m s4 = ncid_m s3" "nfvlen_m s4 = nfvlen_m s3" "nlocs_id_m s4 = nlocs_id_m s3"
    "nobs_m s4 = nobs_m s3" "nvars_m s4 = nvars_m s3" "vname_group_m s4 = vname_group_m s3"
    by simp_all
qed

lemma read_mode_Returned:
  assumes "read_mode ux s0 bgn endt commMPI = Returned s"
  shows "\<exists>s1. set_sizes (query_dims s0) = Returned s1
      \<and> ncid_m s = ncid_m s0 \<and> nfvlen_m s = nfvlen_m s1 \<and> nlocs_id_m s = nlocs_id_m s1
      \<and> nobs_m s = nobs_m s1 \<and> nvars_m s = nvars_m s1
      \<and> vname_group_m s
          = vname_group_m s0 @ concat (map (valid_entries (nlocs_id_m s)) (nc_vars (ncid_m s)))
      \<and> nlocs_m s = length (dist_m s)"
    and "retval (nc_inq_attid (ncid_m s) ''date_time'') = NC_NOERR \<Longrightarrow>
         \<exists>datetime. ReadDateTime ux s = Returned datetime
              \<and> window_loop ux datetime bgn endt (RoundRobin_distribution commMPI (nfvlen_m s))
                   (date_m s0, time_m s0, [])
                 = (date_m s, time_m s,
                    filter (\<lambda>i. \<not> inside datetime bgn endt i)
                      (RoundRobin_distribution commMPI (nfvlen_m s)))
              \<and> dist_m s = erase_loop (RoundRobin_distribution commMPI (nfvlen_m s))
                   (filter (\<lambda>i. \<not> inside datetime bgn endt i)
                      (RoundRobin_distribution commMPI (nfvlen_m s)))"
    and "retval (nc_inq_attid (ncid_m s) ''date_time'') \<noteq> NC_NOERR \<Longrightarrow>
         dist_m s = RoundRobin_distribution commMPI (nfvlen_m s)
         \<and> date_m s = date_m s0 \<and> time_m s = time_m s0"
proof -
  from assms obtain s1 s4 where s1: "set_sizes (query_dims s0) = Returned s1"
    and s4: "(if retval (nc_inq_attid (ncid_m (select_variables s1 commMPI)) ''date_time'') = NC_NOERR
              then apply_window ux (select_variables s1 commMPI) bgn endt
              else Returned (select_variables s1 commMPI)) = Returned s4"
    and s: "s = s4\<lparr>nlocs_m := length (dist_m s4)\<rparr>"
    by (auto simp: read_mode_def Let_def obind_Returned_iff)
  let ?s3 = "select_variables s1 commMPI"
  let ?rr = "RoundRobin_distribution commMPI (nfvlen_m s1)"
  note k = set_sizes_keeps [OF s1]
  have s3: "ncid_m ?s3 = ncid_m s0" "nfvlen_m ?s3 = nfvlen_m s1" "nlocs_id_m ?s3 = nlocs_id_m s1"
    "nobs_m ?s3 = nobs_m s1" "nvars_m ?s3 = nvars_m s1"
    "dist_m ?s3 = ?rr" "date_m ?s3 = date_m s0" "time_m ?s3 = time_m s0"
    "vname_group_m ?s3
       = vname_group_m s0 @ concat (map (valid_entries (nlocs_id_m s1)) (nc_vars (ncid_m s0)))"
    using k by (simp_all add: select_variables_def Let_def walk_variables_concat)
  have keep: "ncid_m s = ncid_m s0 \<and> nfvlen_m s = nfvlen_m s1 \<and> nlocs_id_m s = nlocs_id_m s1
      \<and> nobs_m s = nobs_m s1 \<and> nvars_m s = nvars_m s1
      \<and> vname_group_m s = vname_group_m ?s3 \<and> nlocs_m s = length (dist_m s)
      \<and> (retval (nc_inq_attid (ncid_m s0) ''date_time'') \<noteq> NC_NOERR \<longrightarrow> s4 = ?s3)
      \<and> (retval (nc_inq_attid (ncid_m s0) ''date_time'') = NC_NOERR \<longrightarrow>
           apply_window ux ?s3 bgn endt = Returned s4)"
  proof (cases "retval (nc_inq_attid (ncid_m s0) ''date_time'') = NC_NOERR")
    case True
    with s4 s3 have aw: "apply_window ux ?s3 bgn endt = Returned s4" by simp
    from apply_window_keeps [OF aw] s s3 True aw show ?thesis by simp
  next
    case False
    with s4 s3 have "s4 = ?s3" by simp
    with s s3 False show ?thesis by simp
  qed
  from keep s3 s1 show "\<exists>s1. set_sizes (query_dims s0) = Returned s1
      \<and> ncid_m s = ncid_m s0 \<and> nfvlen_m s = nfvlen_m s1 \<and> nlocs_id_m s = nlocs_id_m s1
      \<and> nobs_m s = nobs_m s1 \<and> nvars_m s = nvars_m s1
      \<and> vname_group_m s
          = vname_group_m s0 @ concat (map (valid_entries (nlocs_id_m s)) (nc_vars (ncid_m s)))
      \<and> nlocs_m s = length (dist_m s)"
    by simp
  {
    assume "retval (nc_inq_attid (ncid_m s) ''date_time'') \<noteq> NC_NOERR"
    with keep have "s4 = ?s3" by simp
    with s s3 keep show "dist_m s = RoundRobin_distribution commMPI (nfvlen_m s)
         \<and> date_m s = date_m s0 \<and> time_m s = time_m s0"
      by simp
  }
  {
    assume "retval (nc_inq_attid (ncid_m s) ''date_time'') = NC_NOERR"
    with keep have aw: "apply_window ux ?s3 bgn endt = Returned s4" by simp
    then obtain datetime where rd: "ReadDateTime ux ?s3 = Returned datetime"
      and wl: "(case window_loop ux datetime bgn endt (dist_m ?s3) (date_m ?s3, time_m ?s3, []) of
         (date, time, to_be_removed) \<Rightarrow>
           (let indx = erase_loop (dist_m ?s3) to_be_removed in
            if length date = length indx
            then Returned (?s3\<lparr>date_m := date, time_m := time, dist_m := indx\<rparr>)
            else Thrown ''Assertion failed: date_.size() == dist_->size()'')) = Returned s4"
      by (auto simp: apply_window_def obind_Returned_iff)
    let ?rm = "filter (\<lambda>i. \<not> inside datetime bgn endt i) ?rr"
    obtain date time where w: "window_loop ux datetime bgn endt ?rr (date_m s0, time_m s0, [])
        = (date, time, ?rm)"
      by (simp add: window_loop_eq)
    from wl w s3 have s4': "s4 = ?s3\<lparr>date_m := date, time_m := time, dist_m := erase_loop ?rr ?rm\<rparr>"
      by (auto simp: Let_def split: if_splits)
    have "ReadDateTime ux s = ReadDateTime ux ?s3"
      by (rule ReadDateTime_cong) (simp_all add: s s4')
    with rd have rd': "ReadDateTime ux s = Returned datetime" by simp
    have nf: "nfvlen_m s = nfvlen_m s1" using keep by simp
    have "window_loop ux datetime bgn endt ?rr (date_m s0, time_m s0, []) = (date_m s, time_m s, ?rm)"
      using w s s4' by simp
    moreover have "dist_m s = erase_loop ?rr ?rm" using s s4' by simp
    ultimately show "\<exists>datetime. ReadDateTime ux s = Returned datetime
              \<and> window_loop ux datetime bgn endt (RoundRobin_distribution commMPI (nfvlen_m s))
                   (date_m s0, time_m s0, [])
                 = (date_m s, time_m s,
                    filter (\<lambda>i. \<not> inside datetime bgn endt i)
                      (RoundRobin_distribution commMPI (nfvlen_m s)))
              \<and> dist_m s = erase_loop (RoundRobin_distribution commMPI (nfvlen_m s))
                   (filter (\<lambda>i. \<not> inside datetime bgn endt i)
                      (RoundRobin_distribution commMPI (nfvlen_m s)))"
      using rd' unfolding nf by blast
  }
qed

lemma open_by_mode_read: "open_by_mode fs FileName ''r'' = Returned f \<Longrightarrow> fs FileName = Some f"
  by (auto simp: open_by_mode_def nc_open_def retval_def split: option.splits if_splits)

lemma NetcdfIO_ctor_read_Returned:
  assumes "NetcdfIO_ctor ux fs m0 FileName ''r'' bgn endt commMPI Nlocs Nobs Nrecs Nvars = Returned s"
  shows "\<exists>f. fs FileName = Some f
     \<and> read_mode ux (initial_members m0 FileName ''r'' Nlocs Nobs Nrecs Nvars f) bgn endt commMPI
       = Returned s"
  using assms by (auto simp: NetcdfIO_ctor_def Let_def obind_Returned_iff dest: open_by_mode_read)

lemma find_map_preserving:
  "(\<And>x. P (f x) = P x) \<Longrightarrow> find P (map f xs) = map_option f (find P xs)"
  by (induction xs) simp_all

lemma find_None_list_ex: "(find P xs = None) = (\<not> list_ex P xs)"
  by (auto simp: find_None_iff list_ex_iff)

lemma find_append:
  "find P (xs @ ys) = (case find P xs of None \<Rightarrow> find P ys | Some x \<Rightarrow> Some x)"
  by (induction xs) simp_all

lemma StoreToDb_new:
  assumes "find (same_var g v) db = None"
  shows "find (same_var g v) (StoreToDb g v sh d ap db)
   = Some \<lparr>vr_group = g, vr_variable = v, vr_shape = sh, vr_data = d\<rparr>"
proof -
  from assms have "\<not> list_ex (same_var g v) db"
    by (simp add: find_None_list_ex)
  then have "StoreToDb g v sh d ap db
      = db @ [\<lparr>vr_group = g, vr_variable = v, vr_shape = sh, vr_data = d\<rparr>]"
    by (simp add: StoreToDb_def)
  with assms show ?thesis
    by (simp add: find_append same_var_def)
qed

lemma StoreToDb_append:
  assumes "find (same_var g v) db = Some r"
  shows "\<exists>r'. find (same_var g v) (StoreToDb g v sh d True db) = Some r'
              \<and> vr_data r' = vr_data r @ d"
proof -
  let ?f = "\<lambda>r. if same_var g v r
                  then r\<lparr>vr_shape := (hd (vr_shape r) + hd sh) # tl (vr_shape r),
                         vr_data := vr_data r @ d\<rparr>
                  else r"
  have ex: "list_ex (same_var g v) db"
    using assms find_None_list_ex [of "same_var g v" db] by auto
  have same: "\<And>x. same_var g v (?f x) = same_var g v x"
    by (simp add: same_var_def)
  have "find (same_var g v) (map ?f db) = map_option ?f (find (same_var g v) db)"
    by (rule find_map_preserving) (rule same)
  moreover have "same_var g v r"
    using assms by (auto simp: find_Some_iff)
  ultimately show ?thesis
    using assms ex by (simp add: StoreToDb_def cong: if_cong)
qed

lemma take_sum: "take (i + j) xs = take i xs @ take j (drop i xs)"
  by (simp add: take_add)

lemma StoreVarSegments_appends:
  assumes "find (same_var g v) db = Some r" and "s + sum_list Counts \<le> length VarData"
  shows "\<exists>db' r'. StoreVarSegments g v sh VarData (starts_from s Counts) Counts db = Returned db'
           \<and> find (same_var g v) db' = Some r'
           \<and> vr_data r' = vr_data r @ take (sum_list Counts) (drop s VarData)"
  using assms
proof (induction Counts arbitrary: s db r)
  case Nil
  then show ?case by simp
next
  case (Cons c Counts)
  from StoreToDb_append [OF Cons.prems(1), of sh "take c (drop s VarData)"]
  obtain r1 where r1: "find (same_var g v) (StoreToDb g v sh (take c (drop s VarData)) True db) = Some r1"
    and d1: "vr_data r1 = vr_data r @ take c (drop s VarData)"
    by blast
  from Cons.prems(2) have le: "(s + c) + sum_list Counts \<le> length VarData" by simp
  from Cons.IH [OF r1 le] obtain db' r' where
    st: "StoreVarSegments g v sh VarData (starts_from (s + c) Counts) Counts
           (StoreToDb g v sh (take c (drop s VarData)) True db) = Returned db'"
    and f: "find (same_var g v) db' = Some r'"
    and d: "vr_data r' = vr_data r1 @ take (sum_list Counts) (drop (s + c) VarData)"
    by blast
  have "take (c + sum_list Counts) (drop s VarData)
        = take c (drop s VarData) @ take (sum_list Counts) (drop (s + c) VarData)"
    by (simp add: take_sum add.commute)
  with st f d d1 Cons.prems(2) show ?case by simp
qed

lemma StoreVarSegments_whole:
  assumes absent: "find (same_var g v) db = None"
    and nonempty: "Counts \<noteq> []"
    and total: "sum_list Counts = length VarData"
  shows "\<exists>db' r'. StoreVarSegments g v sh VarData (Starts_of Counts) Counts db = Returned db'
           \<and> find (same_var g v) db' = Some r' \<and> vr_data r' = VarData"
proof -
  from nonempty obtain c cs where Counts: "Counts = c # cs" by (cases Counts) auto
  let ?db1 = "StoreToDb g v sh (take c (drop 0 VarData)) True db"
  have r1: "find (same_var g v) ?db1
      = Some \<lparr>vr_group = g, vr_variable = v, vr_shape = sh, vr_data = take c (drop 0 VarData)\<rparr>"
    by (rule StoreToDb_new [OF absent])
  from total Counts have le: "c + sum_list cs \<le> length VarData" by simp
  from StoreVarSegments_appends [OF r1 le, of sh] obtain db' r' where
    st: "StoreVarSegments g v sh VarData (starts_from c cs) cs ?db1 = Returned db'"
    and f: "find (same_var g v) db' = Some r'"
    and d: "vr_data r' = take c (drop 0 VarData) @ take (sum_list cs) (drop c VarData)"
    by auto
  from total Counts have "take c VarData @ take (sum_list cs) (drop c VarData) = VarData"
    by (metis take_sum sum_list.Cons take_all order_refl)
  with st f d le Counts show ?thesis
    by (simp add: Starts_of_def)
qed

lemma copy_segment_nth:
  assumes "s + length seg \<le> length out"
  shows "copy_segment out s seg = Returned (take s out @ seg @ drop (s + length seg) out)"
    and "length (take s out @ seg @ drop (s + length seg) out) = length out"
    and "j < length out \<Longrightarrow>
         (take s out @ seg @ drop (s + length seg) out) ! j
         = (if s \<le> j \<and> j < s + length seg then seg ! (j - s) else out ! j)"
  using assms by (auto simp: copy_segment_def nth_append min_def)

lemma LoadVarSegments_invariant:
  assumes "find (same_var g v) db = Some r"
    and "length Starts = length Counts"
    and "list_all (\<lambda>(s, c). s + c \<le> length (vr_data r)) (zip Starts Counts)"
    and "length out = length (vr_data r)"
  shows "\<exists>out'. LoadVarSegments g v sh out Starts Counts db = Returned out'
           \<and> length out' = length out
           \<and> (\<forall>j<length out. out' ! j = (if covered Starts Counts j then vr_data r ! j else out ! j))"
  using assms(2-4)
proof (induction Starts Counts arbitrary: out rule: list_induct2)
  case Nil
  then show ?case by (simp add: covered_def)
next
  case (Cons s Starts c Counts)
  let ?buf = "vr_data r"
  let ?seg = "take c (drop s ?buf)"
  from Cons.prems have sc: "s + c \<le> length ?buf" and rest:
    "list_all (\<lambda>(s, c). s + c \<le> length ?buf) (zip Starts Counts)"
    by simp_all
  then have lseg: "length ?seg = c" by simp
  have ld: "LoadFromDb g v sh s c db = Inr ?seg"
    using assms(1) sc by (simp add: LoadFromDb_def)
  let ?out1 = "take s out @ ?seg @ drop (s + length ?seg) out"
  from sc Cons.prems(2) lseg have fit: "s + length ?seg \<le> length out" by simp
  note cs = copy_segment_nth [OF fit]
  from cs(2) Cons.prems(2) have l1: "length ?out1 = length ?buf" by simp
  from Cons.IH [OF rest l1] obtain out' where
    lv: "LoadVarSegments g v sh ?out1 Starts Counts db = Returned out'"
    and len: "length out' = length ?out1"
    and nth: "\<forall>j<length ?out1. out' ! j = (if covered Starts Counts j then ?buf ! j else ?out1 ! j)"
    by blast
  have "LoadVarSegments g v sh out (s # Starts) (c # Counts) db = Returned out'"
    using ld cs(1) lv by simp
  moreover have "length out' = length out" using len cs(2) by simp
  moreover have "\<forall>j<length out. out' ! j
      = (if covered (s # Starts) (c # Counts) j then ?buf ! j else out ! j)"
  proof (intro allI impI)
    fix j assume j: "j < length out"
    then have j1: "j < length ?out1" using cs(2) by simp
    have o1: "?out1 ! j = (if s \<le> j \<and> j < s + c then ?buf ! j else out ! j)"
      using cs(3) [OF j] lseg sc by (auto simp: nth_append)
    from nth j1 have "out' ! j = (if covered Starts Counts j then ?buf ! j else ?out1 ! j)"
      by blast
    with o1 show "out' ! j = (if covered (s # Starts) (c # Counts) j then ?buf ! j else out ! j)"
      by (auto simp: covered_def)
  qed
  ultimately show ?case by blast
qed

lemma LoadVarSegments_whole:
  assumes "find (same_var g v) db = Some r"
    and "length Starts = length Counts"
    and "list_all (\<lambda>(s, c). s + c \<le> length (vr_data r)) (zip Starts Counts)"
    and "length out = length (vr_data r)"
    and "list_all (covered Starts Counts) [0..<length (vr_data r)]"
  shows "LoadVarSegments g v sh out Starts Counts db = Returned (vr_data r)"
proof -
  from LoadVarSegments_invariant [OF assms(1-4), of sh] obtain out' where
    lv: "LoadVarSegments g v sh out Starts Counts db = Returned out'"
    and len: "length out' = length out"
    and nth: "\<forall>j<length out. out' ! j = (if covered Starts Counts j then vr_data r ! j else out ! j)"
    by blast
  have "out' = vr_data r"
  proof (rule nth_equalityI)
    show "length out' = length (vr_data r)" using len assms(4) by simp
  next
    fix j assume "j < length out'"
    with len assms(4) have j: "j < length out" "j < length (vr_data r)" by simp_all
    with assms(5) have "covered Starts Counts j" by (simp add: list_all_iff)
    with nth j show "out' ! j = vr_data r ! j" by simp
  qed
  with lv show ?thesis by simp
qed




lemma initial_members_fields [simp]:
  "ncid_m (initial_members m0 FileName FileMode Nlocs Nobs Nrecs Nvars f) = f"
  "vname_group_m (initial_members m0 FileName FileMode Nlocs Nobs Nrecs Nvars f) = []"
  "date_m (initial_members m0 FileName FileMode Nlocs Nobs Nrecs Nvars f) = []"
  "time_m (initial_members m0 FileName FileMode Nlocs Nobs Nrecs Nvars f) = []"
  "nobs_m (initial_members m0 FileName FileMode Nlocs Nobs Nrecs Nvars f) = Nobs"
  "nvars_m (initial_members m0 FileName FileMode Nlocs Nobs Nrecs Nvars f) = Nvars"
  "nlocs_id_m (initial_members m0 FileName FileMode Nlocs Nobs Nrecs Nvars f) = nlocs_id_m m0"
  by (simp_all add: initial_members_def)


lemma ctor_window_facts:
  assumes ctor: "NetcdfIO_ctor ux fs m0 FileName ''r'' bgn endt commMPI Nlocs Nobs Nrecs Nvars = Returned s"
    and att: "retval (nc_inq_attid (ncid_m s) ''date_time'') = NC_NOERR"
  shows "\<exists>datetime. ReadDateTime ux s = Returned datetime
      \<and> dist_m s = filter (inside datetime bgn endt) (RoundRobin_distribution commMPI (nfvlen_m s))
      \<and> dist_m s = erase_loop (RoundRobin_distribution commMPI (nfvlen_m s))
          (filter (\<lambda>i. \<not> inside datetime bgn endt i) (RoundRobin_distribution commMPI (nfvlen_m s)))
      \<and> date_m s = map (\<lambda>i. yyyymmdd ux (datetime ! i)) (dist_m s)
      \<and> time_m s = map (\<lambda>i. hhmmss ux (datetime ! i)) (dist_m s)"
proof -
  from NetcdfIO_ctor_read_Returned [OF ctor] obtain f where f: "fs FileName = Some f"
    and rm: "read_mode ux (initial_members m0 FileName ''r'' Nlocs Nobs Nrecs Nvars f) bgn endt commMPI
       = Returned s"
    by blast
  let ?rr = "RoundRobin_distribution commMPI (nfvlen_m s)"
  from read_mode_Returned(2) [OF rm att] obtain datetime where
    rd: "ReadDateTime ux s = Returned datetime"
    and wl: "window_loop ux datetime bgn endt ?rr ([], [], [])
         = (date_m s, time_m s, filter (\<lambda>i. \<not> inside datetime bgn endt i) ?rr)"
    and di: "dist_m s = erase_loop ?rr (filter (\<lambda>i. \<not> inside datetime bgn endt i) ?rr)"
    by auto
  from di have df: "dist_m s = filter (inside datetime bgn endt) ?rr"
    by (simp add: erase_loop_filter)
  from wl df have "date_m s = map (\<lambda>i. yyyymmdd ux (datetime ! i)) (dist_m s)"
    and "time_m s = map (\<lambda>i. hhmmss ux (datetime ! i)) (dist_m s)"
    by (simp_all add: window_loop_eq)
  with rd di df show ?thesis by blast
qed






lemma LoadFromDb_whole:
  "find (same_var g v) db = Some r \<Longrightarrow> LoadFromDb g v sh 0 (length (vr_data r)) db = Inr (vr_data r)"
  by (simp add: LoadFromDb_def)

lemma first_index_None_iff: "(first_index P xs = None) = (\<not> list_ex P xs)"
  by (induction xs) auto

lemma nc_inq_varid_absent:
  "(\<exists>e. nc_inq_varid f name = Inl e) = (name \<notin> set (map var_name (nc_vars f)))"
  using first_index_None_iff [of "\<lambda>v. var_name v = name" "nc_vars f"]
  by (auto simp: nc_inq_varid_def list_ex_iff split: option.splits)

lemma nc_inq_varid_fresh:
  assumes "name \<notin> set (map var_name (nc_vars f))"
  shows "nc_inq_varid f name = Inl NC_ENOTVAR"
  using assms first_index_None_iff [of "\<lambda>v. var_name v = name" "nc_vars f"]
  by (auto simp: nc_inq_varid_def list_ex_iff split: option.splits)

lemma those_map_filter:
  "those (map f xs) = Some ys \<Longrightarrow> List.map_filter f xs = ys \<and> length ys = length xs"
  by (induction xs arbitrary: ys) (auto simp: map_filter_simps split: option.splits)

lemma those_map_Some:
  "list_all (\<lambda>x. f x \<noteq> None) xs \<Longrightarrow> \<exists>ys. those (map f xs) = Some ys"
  by (induction xs) auto

lemma any_cast_all_Returned:
  assumes "any_cast_all cast VarData n = Returned xs"
  shows "xs = List.map_filter cast (take n VarData)" and "length xs = n"
  using assms those_map_filter [of cast "take n VarData" xs]
  by (auto simp: any_cast_all_def split: if_splits option.splits)

lemma any_cast_all_returns:
  assumes "n \<le> length VarData" and "list_all (\<lambda>b. cast b \<noteq> None) (take n VarData)"
  shows "\<exists>xs. any_cast_all cast VarData n = Returned xs"
  using assms those_map_Some [of cast "take n VarData"]
  by (auto simp: any_cast_all_def)

lemma nc_def_var_fresh:
  assumes "name \<notin> set (map var_name (nc_vars f))"
    and "nc_inq_dimlen f dimid = Inr n"
  shows "nc_def_var f name no_values dimid
         = Inr (f\<lparr>nc_vars := nc_vars f @
                    [\<lparr>var_name = name, var_dimids = [dimid], var_values = no_values\<rparr>]\<rparr>,
                length (nc_vars f))"
  using assms first_index_None_iff [of "\<lambda>v. var_name v = name" "nc_vars f"]
  by (auto simp: nc_def_var_def nc_inq_dimlen_def list_ex_iff split: option.splits if_splits)

lemma find_or_create_fresh:
  assumes "name \<notin> set (map var_name (nc_vars (ncid_m s)))"
    and "nc_inq_dimlen (ncid_m s) (nlocs_id_m s) = Inr n"
  shows "find_or_create s name no_values
         = Returned ((ncid_m s)\<lparr>nc_vars := nc_vars (ncid_m s) @
                      [\<lparr>var_name = name, var_dimids = [nlocs_id_m s], var_values = no_values\<rparr>]\<rparr>,
                     length (nc_vars (ncid_m s)))"
  by (simp add: find_or_create_def nc_inq_varid_fresh [OF assms(1)]
      nc_def_var_fresh [OF assms] checked_Inr)

lemma var_size_last:
  assumes "nc_inq_dimlen f dimid = Inr n"
  shows "var_size (f\<lparr>nc_vars := nc_vars f @
                     [\<lparr>var_name = name, var_dimids = [dimid], var_values = vals\<rparr>]\<rparr>)
           (length (nc_vars f)) = n"
  using assms by (auto simp: var_size_def nc_inq_dimlen_def split: if_splits)

lemma set_values_last:
  "set_values (f\<lparr>nc_vars := vs @ [\<lparr>var_name = name, var_dimids = ds, var_values = old\<rparr>]\<rparr>)
     (length vs) vals
   = f\<lparr>nc_vars := vs @ [\<lparr>var_name = name, var_dimids = ds, var_values = vals\<rparr>]\<rparr>"
  by (simp add: set_values_def)

lemma WriteVar_int_fresh:
  assumes "name \<notin> set (map var_name (nc_vars (ncid_m s)))"
    and "nc_inq_dimlen (ncid_m s) (nlocs_id_m s) = Inr (length xs)"
  shows "WriteVar_int ux s name xs
         = Returned (s\<lparr>ncid_m := (ncid_m s)\<lparr>nc_vars := nc_vars (ncid_m s) @
             [\<lparr>var_name = name, var_dimids = [nlocs_id_m s], var_values = IntValues xs\<rparr>]\<rparr>\<rparr>)"
  by (simp add: WriteVar_int_def find_or_create_fresh [OF assms] var_size_last [OF assms(2)]
      nc_put_var_int_def set_values_last checked_Inr)

lemma WriteVar_float_fresh:
  assumes "name \<notin> set (map var_name (nc_vars (ncid_m s)))"
    and "nc_inq_dimlen (ncid_m s) (nlocs_id_m s) = Inr (length xs)"
  shows "WriteVar_float s name xs
         = Returned (s\<lparr>ncid_m := (ncid_m s)\<lparr>nc_vars := nc_vars (ncid_m s) @
             [\<lparr>var_name = name, var_dimids = [nlocs_id_m s], var_values = FloatValues xs\<rparr>]\<rparr>\<rparr>)"
  by (simp add: WriteVar_float_def find_or_create_fresh [OF assms] var_size_last [OF assms(2)]
      nc_put_var_float_def set_values_last checked_Inr)

lemma WriteVar_double_fresh:
  assumes "name \<notin> set (map var_name (nc_vars (ncid_m s)))"
    and "nc_inq_dimlen (ncid_m s) (nlocs_id_m s) = Inr (length xs)"
  shows "WriteVar_double ux s name xs
         = Returned (s\<lparr>ncid_m := (ncid_m s)\<lparr>nc_vars := nc_vars (ncid_m s) @
             [\<lparr>var_name = name, var_dimids = [nlocs_id_m s], var_values = DoubleValues xs\<rparr>]\<rparr>\<rparr>)"
  by (simp add: WriteVar_double_def find_or_create_fresh [OF assms] var_size_last [OF assms(2)]
      nc_put_var_double_def set_values_last checked_Inr)

lemma nc_inq_dimlen_vars [simp]:
  "nc_inq_dimlen (f\<lparr>nc_vars := vs\<rparr>) dimid = nc_inq_dimlen f dimid"
  by (simp add: nc_inq_dimlen_def)

lemma holds_values_column:
  "holds_values r = (column_values n (rec_data r) \<noteq> None)"
  by (auto simp: holds_values_def column_values_def split: list.splits any.splits)

lemma written_var_Some:
  "holds_values r \<Longrightarrow> \<exists>vals. column_values n (rec_data r) = Some vals
     \<and> written_var dimid n r
       = Some \<lparr>var_name = dump_name r, var_dimids = [dimid], var_values = vals\<rparr>"
  by (auto simp: holds_values_column [of r n] written_var_def dump_name_def)

lemma written_var_None: "\<not> holds_values r \<Longrightarrow> written_var dimid n r = None"
  by (simp add: holds_values_column [of r n] written_var_def)

lemma WriteVar_any_fresh:
  assumes ret: "WriteVar_any ux s name VarData = Returned s'"
    and fresh: "name \<notin> set (map var_name (nc_vars (ncid_m s)))"
    and dim: "nc_inq_dimlen (ncid_m s) (nlocs_id_m s) = Inr (nlocs_m s)"
    and col: "column_values (nlocs_m s) VarData = Some vals"
  shows "s' = s\<lparr>ncid_m := (ncid_m s)\<lparr>nc_vars := nc_vars (ncid_m s) @
           [\<lparr>var_name = name, var_dimids = [nlocs_id_m s], var_values = vals\<rparr>]\<rparr>\<rparr>"
proof (cases VarData)
  case Nil
  with col show ?thesis by (simp add: column_values_def)
next
  case (Cons a rest)
  show ?thesis
  proof (cases a)
    case any_empty
    with Cons col show ?thesis by (simp add: column_values_def)
  next
    case (any_int i)
    with Cons ret obtain xs where c: "any_cast_all int_of_any VarData (nlocs_m s) = Returned xs"
      and w: "WriteVar_int ux s name xs = Returned s'"
      by (auto simp: WriteVar_any_def obind_Returned_iff)
    from any_cast_all_Returned [OF c] dim
    have d: "nc_inq_dimlen (ncid_m s) (nlocs_id_m s) = Inr (length xs)"
      and x: "xs = List.map_filter int_of_any (take (nlocs_m s) VarData)" by simp_all
    from Cons any_int col x have "vals = IntValues xs" by (simp add: column_values_def)
    with w WriteVar_int_fresh [OF fresh d, of ux] show ?thesis by simp
  next
    case (any_float y)
    with Cons ret obtain xs where c: "any_cast_all float_of_any VarData (nlocs_m s) = Returned xs"
      and w: "WriteVar_float s name xs = Returned s'"
      by (auto simp: WriteVar_any_def obind_Returned_iff)
    from any_cast_all_Returned [OF c] dim
    have d: "nc_inq_dimlen (ncid_m s) (nlocs_id_m s) = Inr (length xs)"
      and x: "xs = List.map_filter float_of_any (take (nlocs_m s) VarData)" by simp_all
    from Cons any_float col x have "vals = FloatValues xs" by (simp add: column_values_def)
    with w WriteVar_float_fresh [OF fresh d] show ?thesis by simp
  next
    case (any_double y)
    with Cons ret obtain xs where c: "any_cast_all double_of_any VarData (nlocs_m s) = Returned xs"
      and w: "WriteVar_double ux s name xs = Returned s'"
      by (auto simp: WriteVar_any_def obind_Returned_iff)
    from any_cast_all_Returned [OF c] dim
    have d: "nc_inq_dimlen (ncid_m s) (nlocs_id_m s) = Inr (length xs)"
      and x: "xs = List.map_filter double_of_any (take (nlocs_m s) VarData)" by simp_all
    from Cons any_double col x have "vals = DoubleValues xs" by (simp add: column_values_def)
    with w WriteVar_double_fresh [OF fresh d, of ux] show ?thesis by simp
  qed
qed

lemma WriteVar_any_skips:
  assumes "WriteVar_any ux s name (rec_data r) = Returned s'" and "\<not> holds_values r"
  shows "s' = s"
  using assms
  by (auto simp: WriteVar_any_def holds_values_def split: list.splits any.splits)

lemma WriteVar_any_returns:
  assumes w: "writable (nlocs_m s) r"
    and fresh: "name \<notin> set (map var_name (nc_vars (ncid_m s)))"
    and dim: "nc_inq_dimlen (ncid_m s) (nlocs_id_m s) = Inr (nlocs_m s)"
  shows "\<exists>s'. WriteVar_any ux s name (rec_data r) = Returned s'"
proof (cases "rec_data r")
  case Nil
  with w show ?thesis by (simp add: writable_def)
next
  case (Cons a rest)
  show ?thesis
  proof (cases a)
    case any_empty
    with Cons show ?thesis by (simp add: WriteVar_any_def)
  next
    case (any_int i)
    with Cons w have "nlocs_m s \<le> length (rec_data r)"
      and "list_all (\<lambda>b. int_of_any b \<noteq> None) (take (nlocs_m s) (rec_data r))"
      by (simp_all add: writable_def)
    from any_cast_all_returns [OF this] obtain xs where
      c: "any_cast_all int_of_any (rec_data r) (nlocs_m s) = Returned xs" by blast
    from any_cast_all_Returned(2) [OF c] dim
    have d: "nc_inq_dimlen (ncid_m s) (nlocs_id_m s) = Inr (length xs)" by simp
    from Cons any_int c WriteVar_int_fresh [OF fresh d, of ux] show ?thesis
      by (simp add: WriteVar_any_def)
  next
    case (any_float y)
    with Cons w have "nlocs_m s \<le> length (rec_data r)"
      and "list_all (\<lambda>b. float_of_any b \<noteq> None) (take (nlocs_m s) (rec_data r))"
      by (simp_all add: writable_def)
    from any_cast_all_returns [OF this] obtain xs where
      c: "any_cast_all float_of_any (rec_data r) (nlocs_m s) = Returned xs" by blast
    from any_cast_all_Returned(2) [OF c] dim
    have d: "nc_inq_dimlen (ncid_m s) (nlocs_id_m s) = Inr (length xs)" by simp
    from Cons any_float c WriteVar_float_fresh [OF fresh d] show ?thesis
      by (simp add: WriteVar_any_def)
  next
    case (any_double y)
    with Cons w have "nlocs_m s \<le> length (rec_data r)"
      and "list_all (\<lambda>b. double_of_any b \<noteq> None) (take (nlocs_m s) (rec_data r))"
      by (simp_all add: writable_def)
    from any_cast_all_returns [OF this] obtain xs where
      c: "any_cast_all double_of_any (rec_data r) (nlocs_m s) = Returned xs" by blast
    from any_cast_all_Returned(2) [OF c] dim
    have d: "nc_inq_dimlen (ncid_m s) (nlocs_id_m s) = Inr (length xs)" by simp
    from Cons any_double c WriteVar_double_fresh [OF fresh d, of ux] show ?thesis
      by (simp add: WriteVar_any_def)
  qed
qed

lemma write_records_fresh:
  assumes "write_records ux s rs = Returned s'"
    and "distinct (map dump_name (filter holds_values rs))"
    and "set (map dump_name (filter holds_values rs)) \<inter> set (map var_name (nc_vars (ncid_m s))) = {}"
    and "nc_inq_dimlen (ncid_m s) (nlocs_id_m s) = Inr (nlocs_m s)"
  shows "nc_vars (ncid_m s')
         = nc_vars (ncid_m s) @ List.map_filter (written_var (nlocs_id_m s) (nlocs_m s)) rs
       \<and> nc_dims (ncid_m s') = nc_dims (ncid_m s)"
  using assms
proof (induction rs arbitrary: s)
  case Nil
  then show ?case by (simp add: map_filter_simps)
next
  case (Cons r rs)
  from Cons.prems(1) obtain s1 where w: "WriteVar_any ux s (dump_name r) (rec_data r) = Returned s1"
    and rest: "write_records ux s1 rs = Returned s'"
    by (auto simp: obind_Returned_iff)
  show ?case
  proof (cases "holds_values r")
    case False
    from WriteVar_any_skips [OF w False] have s1: "s1 = s" .
    from Cons.prems(2,3) False
    have "distinct (map dump_name (filter holds_values rs))"
      and "set (map dump_name (filter holds_values rs)) \<inter> set (map var_name (nc_vars (ncid_m s))) = {}"
      by simp_all
    from Cons.IH [OF rest [unfolded s1] this Cons.prems(4)] written_var_None [OF False]
    show ?thesis by (simp add: map_filter_simps)
  next
    case True
    from written_var_Some [OF True, of "nlocs_m s" "nlocs_id_m s"] obtain vals where
      col: "column_values (nlocs_m s) (rec_data r) = Some vals"
      and wv: "written_var (nlocs_id_m s) (nlocs_m s) r
         = Some \<lparr>var_name = dump_name r, var_dimids = [nlocs_id_m s], var_values = vals\<rparr>"
      by blast
    from Cons.prems(3) True
    have fresh: "dump_name r \<notin> set (map var_name (nc_vars (ncid_m s)))" by auto
    from WriteVar_any_fresh [OF w fresh Cons.prems(4) col]
    have s1: "s1 = s\<lparr>ncid_m := (ncid_m s)\<lparr>nc_vars := nc_vars (ncid_m s) @
           [\<lparr>var_name = dump_name r, var_dimids = [nlocs_id_m s], var_values = vals\<rparr>]\<rparr>\<rparr>" .
    from Cons.prems(2) True have d1: "distinct (map dump_name (filter holds_values rs))" by simp
    from Cons.prems(2,3) True s1
    have e1: "set (map dump_name (filter holds_values rs))
        \<inter> set (map var_name (nc_vars (ncid_m s1))) = {}"
      by auto
    from Cons.prems(4) s1
    have i1: "nc_inq_dimlen (ncid_m s1) (nlocs_id_m s1) = Inr (nlocs_m s1)"
      by simp
    from Cons.IH [OF rest d1 e1 i1] s1 wv show ?thesis by (simp add: map_filter_simps)
  qed
qed

lemma write_records_returns:
  assumes "list_all (writable (nlocs_m s)) rs"
    and "distinct (map dump_name (filter holds_values rs))"
    and "set (map dump_name (filter holds_values rs)) \<inter> set (map var_name (nc_vars (ncid_m s))) = {}"
    and "nc_inq_dimlen (ncid_m s) (nlocs_id_m s) = Inr (nlocs_m s)"
  shows "\<exists>s'. write_records ux s rs = Returned s'"
  using assms
proof (induction rs arbitrary: s)
  case Nil
  then show ?case by simp
next
  case (Cons r rs)
  show ?case
  proof (cases "holds_values r")
    case False
    with Cons.prems(1) have w: "WriteVar_any ux s (dump_name r) (rec_data r) = Returned s"
      by (auto simp: WriteVar_any_def holds_values_def writable_def split: list.splits any.splits)
    from Cons.prems False
    have "list_all (writable (nlocs_m s)) rs"
      and "distinct (map dump_name (filter holds_values rs))"
      and "set (map dump_name (filter holds_values rs)) \<inter> set (map var_name (nc_vars (ncid_m s))) = {}"
      by simp_all
    from Cons.IH [OF this Cons.prems(4)] w show ?thesis by simp
  next
    case True
    from Cons.prems(3) True
    have fresh: "dump_name r \<notin> set (map var_name (nc_vars (ncid_m s)))" by auto
    from Cons.prems(1) have wr: "writable (nlocs_m s) r" by simp
    from WriteVar_any_returns [OF wr fresh Cons.prems(4), of ux] obtain s1 where
      w: "WriteVar_any ux s (dump_name r) (rec_data r) = Returned s1" by blast
    from written_var_Some [OF True, of "nlocs_m s" "nlocs_id_m s"] obtain vals where
      col: "column_values (nlocs_m s) (rec_data r) = Some vals" by blast
    from WriteVar_any_fresh [OF w fresh Cons.prems(4) col]
    have s1: "s1 = s\<lparr>ncid_m := (ncid_m s)\<lparr>nc_vars := nc_vars (ncid_m s) @
           [\<lparr>var_name = dump_name r, var_dimids = [nlocs_id_m s], var_values = vals\<rparr>]\<rparr>\<rparr>" .
    from Cons.prems(1) s1 have a1: "list_all (writable (nlocs_m s1)) rs" by simp
    from Cons.prems(2) True have d1: "distinct (map dump_name (filter holds_values rs))" by simp
    from Cons.prems(2,3) True s1
    have e1: "set (map dump_name (filter holds_values rs))
        \<inter> set (map var_name (nc_vars (ncid_m s1))) = {}"
      by auto
    from Cons.prems(4) s1
    have i1: "nc_inq_dimlen (ncid_m s1) (nlocs_id_m s1) = Inr (nlocs_m s1)"
      by simp
    from Cons.IH [OF a1 d1 e1 i1] w show ?thesis by simp
  qed
qed

lemma set_values_names: "map var_name (nc_vars (set_values f varid vals)) = map var_name (nc_vars f)"
proof (cases "varid < length (nc_vars f)")
  case True
  then show ?thesis
    by (simp add: set_values_def map_update list_update_same_conv)
next
  case False
  then show ?thesis by (simp add: set_values_def list_update_beyond)
qed

lemma nc_put_var_names:
  "nc_put_var_int ux f varid idata = Inr f' \<Longrightarrow> map var_name (nc_vars f') = map var_name (nc_vars f)"
  "nc_put_var_float f varid rdata = Inr f' \<Longrightarrow> map var_name (nc_vars f') = map var_name (nc_vars f)"
  "nc_put_var_double ux f varid rdata = Inr f' \<Longrightarrow> map var_name (nc_vars f') = map var_name (nc_vars f)"
  by (auto simp: nc_put_var_int_def nc_put_var_float_def nc_put_var_double_def Let_def
      set_values_names split: nc_values.splits if_splits)

lemma find_or_create_names:
  assumes "find_or_create s VarName no_values = Returned (f, varid)"
  shows "map var_name (nc_vars f) = names_after (map var_name (nc_vars (ncid_m s))) VarName"
proof (cases "nc_inq_varid (ncid_m s) VarName")
  case (Inr v)
  with assms have "f = ncid_m s" by (simp add: find_or_create_def)
  moreover from Inr nc_inq_varid_absent [of "ncid_m s" VarName]
  have "VarName \<in> set (map var_name (nc_vars (ncid_m s)))" by auto
  ultimately show ?thesis by (simp add: names_after_def)
next
  case (Inl e)
  with nc_inq_varid_absent [of "ncid_m s" VarName]
  have notin: "VarName \<notin> set (map var_name (nc_vars (ncid_m s)))" by blast
  from Inl assms have "nc_def_var (ncid_m s) VarName no_values (nlocs_id_m s) = Inr (f, varid)"
    by (simp add: find_or_create_def checked_Returned_iff)
  then have "nc_vars f = nc_vars (ncid_m s)
      @ [\<lparr>var_name = VarName, var_dimids = [nlocs_id_m s], var_values = no_values\<rparr>]"
    by (auto simp: nc_def_var_def split: option.splits if_splits)
  with notin show ?thesis by (simp add: names_after_def)
qed

lemma WriteVar_names:
  "WriteVar_int ux s VarName idata = Returned s' \<Longrightarrow>
   map var_name (nc_vars (ncid_m s')) = names_after (map var_name (nc_vars (ncid_m s))) VarName"
  "WriteVar_float s VarName rdata = Returned s' \<Longrightarrow>
   map var_name (nc_vars (ncid_m s')) = names_after (map var_name (nc_vars (ncid_m s))) VarName"
  "WriteVar_double ux s VarName rdata = Returned s' \<Longrightarrow>
   map var_name (nc_vars (ncid_m s')) = names_after (map var_name (nc_vars (ncid_m s))) VarName"
  by (auto simp: WriteVar_int_def WriteVar_float_def WriteVar_double_def obind_Returned_iff
      checked_Returned_iff split: if_splits prod.splits
      dest!: find_or_create_names nc_put_var_names)

lemma WriteVar_any_names:
  assumes "WriteVar_any ux s VarName (rec_data r) = Returned s'" and "holds_values r"
  shows "map var_name (nc_vars (ncid_m s')) = names_after (map var_name (nc_vars (ncid_m s))) VarName"
  using assms
  by (cases "rec_data r"; cases "hd (rec_data r)")
    (auto simp: WriteVar_any_def holds_values_def obind_Returned_iff dest: WriteVar_names)

lemma write_records_names:
  assumes "write_records ux s rs = Returned s'"
  shows "map var_name (nc_vars (ncid_m s'))
         = foldl names_after (map var_name (nc_vars (ncid_m s)))
             (map dump_name (filter holds_values rs))"
  using assms
proof (induction rs arbitrary: s)
  case Nil
  then show ?case by simp
next
  case (Cons r rs)
  from Cons.prems obtain s1 where w: "WriteVar_any ux s (dump_name r) (rec_data r) = Returned s1"
    and rest: "write_records ux s1 rs = Returned s'"
    by (auto simp: obind_Returned_iff)
  show ?case
  proof (cases "holds_values r")
    case True
    from WriteVar_any_names [OF w True] Cons.IH [OF rest] True show ?thesis by simp
  next
    case False
    from WriteVar_any_skips [OF w False] Cons.IH [OF rest] False show ?thesis by simp
  qed
qed

lemma foldl_names_after: "foldl names_after [] ns = rev (remdups (rev ns))"
  by (induction ns rule: rev_induct) (simp_all add: names_after_def)

lemma NetcdfIO_ctor_W:
  "\<exists>s. NetcdfIO_ctor ux fs m0 FileName ''W'' bgn endt commMPI Nlocs Nobs Nrecs Nvars = Returned s
     \<and> nc_vars (ncid_m s) = []
     \<and> nc_dims (ncid_m s)
       = [(''nlocs'', Nlocs), (''nobs'', Nobs), (''nrecs'', Nrecs), (''nvars'', Nvars)]
     \<and> nlocs_id_m s = 0 \<and> nlocs_m s = Nlocs"
  by (simp add: NetcdfIO_ctor_def open_by_mode_def nc_create_def retval_def NC_NOERR_def
      write_mode_def def_dim_into_def nc_def_dim_def initial_members_def Let_def)

lemma by_variable_written:
  "filter holds_values (by_variable db) = by_variable (filter holds_values db)"
  "mset (by_variable db) = mset db"
  "distinct (map f (by_variable db)) = distinct (map f db)"
proof -
  show "filter holds_values (by_variable db) = by_variable (filter holds_values db)"
    by (simp add: by_variable_def filter_sort)
  show m: "mset (by_variable db) = mset db" by (simp add: by_variable_def)
  then have "mset (map f (by_variable db)) = mset (map f db)" by simp
  then show "distinct (map f (by_variable db)) = distinct (map f db)"
    by (rule mset_eq_imp_distinct_iff)
qed

lemma nc_put_var_dims:
  "nc_put_var_int ux f varid idata = Inr f' \<Longrightarrow> nc_dims f' = nc_dims f"
  "nc_put_var_float f varid rdata = Inr f' \<Longrightarrow> nc_dims f' = nc_dims f"
  "nc_put_var_double ux f varid rdata = Inr f' \<Longrightarrow> nc_dims f' = nc_dims f"
  by (auto simp: nc_put_var_int_def nc_put_var_float_def nc_put_var_double_def Let_def
      set_values_def split: nc_values.splits if_splits)

lemma find_or_create_dims:
  assumes "find_or_create s VarName no_values = Returned (f, varid)"
  shows "nc_dims f = nc_dims (ncid_m s)"
  using assms
  by (auto simp: find_or_create_def checked_Returned_iff nc_def_var_def
      split: sum.splits option.splits if_splits)

lemma WriteVar_dims:
  "WriteVar_int ux s VarName idata = Returned s' \<Longrightarrow> nc_dims (ncid_m s') = nc_dims (ncid_m s)"
  "WriteVar_float s VarName rdata = Returned s' \<Longrightarrow> nc_dims (ncid_m s') = nc_dims (ncid_m s)"
  "WriteVar_double ux s VarName rdata = Returned s' \<Longrightarrow> nc_dims (ncid_m s') = nc_dims (ncid_m s)"
  by (auto simp: WriteVar_int_def WriteVar_float_def WriteVar_double_def obind_Returned_iff
      checked_Returned_iff split: if_splits prod.splits
      dest!: find_or_create_dims nc_put_var_dims)

lemma WriteVar_any_dims:
  assumes "WriteVar_any ux s VarName VarData = Returned s'"
  shows "nc_dims (ncid_m s') = nc_dims (ncid_m s)"
  using assms
  by (cases VarData; cases "hd VarData")
    (auto simp: WriteVar_any_def obind_Returned_iff dest: WriteVar_dims)

lemma write_records_dims:
  assumes "write_records ux s rs = Returned s'"
  shows "nc_dims (ncid_m s') = nc_dims (ncid_m s)"
  using assms
proof (induction rs arbitrary: s)
  case Nil
  then show ?case by simp
next
  case (Cons r rs)
  from Cons.prems obtain s1 where w: "WriteVar_any ux s (dump_name r) (rec_data r) = Returned s1"
    and rest: "write_records ux s1 rs = Returned s'"
    by (auto simp: obind_Returned_iff)
  from WriteVar_any_dims [OF w] Cons.IH [OF rest] show ?case by simp
qed

section \<open>The claims\<close>

subsection \<open>C1\<close>

text \<open>
  C1, as the code has it. Every value that \<open>ReadVar_any\<close> loads from a float variable
  (from a double variable, the value after its conversion to float) equals the sentinel
  missing value when it is greater than 1.0e8 and equals the value itself otherwise. The
  comparison is \<open>x > 1.0e8\<close>, with no absolute value: a value below -1.0e8 is loaded as it
  is. The value loaded at position \<open>ii\<close> is the one read at the \<open>ii\<close>-th owned index.
\<close>

theorem ReadVar_any_substitutes_above_threshold:
  assumes ret: "ReadVar_any ux s VarName VarData = Returned out"
    and nd: "\<not> starts_with ''date'' VarName" and nt: "\<not> starts_with ''time'' VarName"
    and vid: "nc_inq_varid (ncid_m s) VarName = Inr varid"
    and ii: "ii < length (dist_m s)"
  shows "(var_values (nc_vars (ncid_m s) ! varid) = FloatValues raw \<longrightarrow>
            out ! ii = any_float (if raw ! (dist_m s ! ii) > 100000000 then missingValue ux
                                  else raw ! (dist_m s ! ii)))
       \<and> (var_values (nc_vars (ncid_m s) ! varid) = DoubleValues raw \<longrightarrow>
            out ! ii = any_float (if to_float ux (raw ! (dist_m s ! ii)) > 100000000 then missingValue ux
                                  else to_float ux (raw ! (dist_m s ! ii))))"
proof (intro conjI impI)
  assume "var_values (nc_vars (ncid_m s) ! varid) = FloatValues raw"
  from ReadVar_any_FloatValues [OF ret nd nt vid this] ii
  show "out ! ii = any_float (if raw ! (dist_m s ! ii) > 100000000 then missingValue ux
                                  else raw ! (dist_m s ! ii))"
    by (auto dest!: assign_all_Returned [where ii = ii] simp: substitute_missing_def missingthreshold_def)
next
  assume "var_values (nc_vars (ncid_m s) ! varid) = DoubleValues raw"
  from ReadVar_any_DoubleValues [OF ret nd nt vid this] ii
  show "out ! ii = any_float (if to_float ux (raw ! (dist_m s ! ii)) > 100000000 then missingValue ux
                                  else to_float ux (raw ! (dist_m s ! ii)))"
    by (auto dest!: assign_all_Returned [where ii = ii] simp: substitute_missing_def missingthreshold_def)
qed

text \<open>
  C1 at the raw values 1.0, 1.0e9, -2.0 of the column \<open>x@ObsValue\<close>: they load as 1.0, the
  sentinel, -2.0.
\<close>

theorem ReadVar_any_substitutes_above_threshold_witness:
  "ReadVar_any example_env float_reader ''x@ObsValue'' [any_empty, any_empty, any_empty]
   = Returned [any_float 1, any_float (missingValue example_env), any_float (- 2)]
   \<and> \<not> starts_with ''date'' ''x@ObsValue'' \<and> \<not> starts_with ''time'' ''x@ObsValue''
   \<and> nc_inq_varid (ncid_m float_reader) ''x@ObsValue'' = Inr 0
   \<and> 1 < length (dist_m float_reader)
   \<and> var_values (nc_vars (ncid_m float_reader) ! 0) = FloatValues [1, 1000000000, - 2]
   \<and> [any_float 1, any_float (missingValue example_env), any_float (- 2)] ! 1
     = any_float (if [1, 1000000000, - 2] ! (dist_m float_reader ! 1) > (100000000 :: real)
                  then missingValue example_env
                  else [1, 1000000000, - 2] ! (dist_m float_reader ! 1))"
proof -
  have ret: "ReadVar_any example_env float_reader ''x@ObsValue'' [any_empty, any_empty, any_empty]
      = Returned [any_float 1, any_float (missingValue example_env), any_float (- 2)]"
    by code_simp
  have nd: "\<not> starts_with ''date'' ''x@ObsValue''" by code_simp
  have nt: "\<not> starts_with ''time'' ''x@ObsValue''" by code_simp
  have vid: "nc_inq_varid (ncid_m float_reader) ''x@ObsValue'' = Inr 0" by code_simp
  have ii: "1 < length (dist_m float_reader)" by code_simp
  have vv: "var_values (nc_vars (ncid_m float_reader) ! 0) = FloatValues [1, 1000000000, - 2]"
    by code_simp
  note inst = ReadVar_any_substitutes_above_threshold [OF ret nd nt vid ii, of "[1, 1000000000, - 2]"]
  have c: "[any_float 1, any_float (missingValue example_env), any_float (- 2)] ! 1
     = any_float (if [1, 1000000000, - 2] ! (dist_m float_reader ! 1) > (100000000 :: real)
                  then missingValue example_env
                  else [1, 1000000000, - 2] ! (dist_m float_reader ! 1))"
    by (rule mp [OF conjunct1 [OF inst] vv])
  show ?thesis
    by (intro conjI; fact)
qed

text \<open>
  C1 with the absolute value does not hold: the raw value -1.0e9 has \<open>|x| > 1.0e8\<close>, and
  the file that holds it loads it as -1.0e9, which is not the sentinel.
\<close>

theorem missing_value_counterexample:
  "CreateFromFile example_env (one_file (float_file [- 1000000000])) members0 empty_container
      ''in.nc'' ''r'' 0 10 one_rank
   = Returned (empty_container\<lparr>container_nlocs_m := 1, container_nvars_m := 1,
        DataContainer := [\<lparr>rec_group = ''ObsValue'', rec_variable = ''x'', rec_mode = ''r'',
                            rec_size = 1, rec_data = [any_float (- 1000000000)]\<rparr>]\<rparr>)
   \<and> \<bar>- 1000000000 :: real\<bar> > 100000000
   \<and> missingValue example_env \<noteq> - 1000000000"
  by code_simp

subsection \<open>C2\<close>

text \<open>
  C2. When the constructor has opened a file for read and the file has the attribute
  \<open>date_time\<close>, the indices the reader owns afterwards are those of the round-robin
  distribution whose timestamp \<open>t\<close> has \<open>bgn < t\<close> and \<open>t \<le> end\<close>, in their order: an index
  of the distribution is retained if and only if its timestamp is inside the window,
  lower bound excluded and upper bound included, and the others are the ones handed to
  \<open>erase\<close>, one after the other.
\<close>

theorem window_filter_retains:
  assumes "NetcdfIO_ctor ux fs m0 FileName ''r'' bgn endt commMPI Nlocs Nobs Nrecs Nvars = Returned s"
    and "retval (nc_inq_attid (ncid_m s) ''date_time'') = NC_NOERR"
  shows "\<exists>datetime. ReadDateTime ux s = Returned datetime
      \<and> dist_m s = filter (\<lambda>i. bgn < datetime ! i \<and> datetime ! i \<le> endt)
                      (RoundRobin_distribution commMPI (nfvlen_m s))
      \<and> dist_m s = erase_loop (RoundRobin_distribution commMPI (nfvlen_m s))
                      (filter (\<lambda>i. \<not> (bgn < datetime ! i \<and> datetime ! i \<le> endt))
                         (RoundRobin_distribution commMPI (nfvlen_m s)))
      \<and> (\<forall>i. (i \<in> set (dist_m s))
               = (i \<in> set (RoundRobin_distribution commMPI (nfvlen_m s))
                  \<and> bgn < datetime ! i \<and> datetime ! i \<le> endt))"
proof -
  from ctor_window_facts [OF assms] obtain datetime where
    rd: "ReadDateTime ux s = Returned datetime"
    and df: "dist_m s = filter (inside datetime bgn endt) (RoundRobin_distribution commMPI (nfvlen_m s))"
    and de: "dist_m s = erase_loop (RoundRobin_distribution commMPI (nfvlen_m s))
          (filter (\<lambda>i. \<not> inside datetime bgn endt i) (RoundRobin_distribution commMPI (nfvlen_m s)))"
    by blast
  have in_eq: "inside datetime bgn endt = (\<lambda>i. bgn < datetime ! i \<and> datetime ! i \<le> endt)"
    by (rule ext) (simp add: inside_def)
  have "\<forall>i. (i \<in> set (dist_m s))
               = (i \<in> set (RoundRobin_distribution commMPI (nfvlen_m s))
                  \<and> bgn < datetime ! i \<and> datetime ! i \<le> endt)"
    by (subst df) (auto simp: inside_def)
  with rd df de show ?thesis
    unfolding in_eq by blast
qed

text \<open>
  C2 for offsets of minus 30, 0, 15 and 30 minutes and the window from 00:00 to 00:30: of
  the indices 0, 1, 2, 3 the reader retains 2 and 3; index 1, exactly at the beginning of
  the window, is dropped and index 3, exactly at its end, is kept.
\<close>

theorem window_filter_retains_witness:
  "NetcdfIO_ctor example_env (one_file window_file) members0 ''in.nc'' ''r'' window_bgn window_end
     one_rank 0 0 0 0 = Returned window_reader
   \<and> retval (nc_inq_attid (ncid_m window_reader) ''date_time'') = NC_NOERR
   \<and> RoundRobin_distribution one_rank (nfvlen_m window_reader) = [0, 1, 2, 3]
   \<and> dist_m window_reader = [2, 3]
   \<and> (\<exists>datetime. ReadDateTime example_env window_reader = Returned datetime
        \<and> dist_m window_reader
          = filter (\<lambda>i. window_bgn < datetime ! i \<and> datetime ! i \<le> window_end) [0, 1, 2, 3]
        \<and> dist_m window_reader
          = erase_loop [0, 1, 2, 3]
              (filter (\<lambda>i. \<not> (window_bgn < datetime ! i \<and> datetime ! i \<le> window_end))
                 [0, 1, 2, 3])
        \<and> (\<forall>i. (i \<in> set (dist_m window_reader))
               = (i \<in> set [0, 1, 2, 3]
                  \<and> window_bgn < datetime ! i \<and> datetime ! i \<le> window_end)))"
proof -
  have ctor: "NetcdfIO_ctor example_env (one_file window_file) members0 ''in.nc'' ''r'' window_bgn
      window_end one_rank 0 0 0 0 = Returned window_reader"
    by code_simp
  have att: "retval (nc_inq_attid (ncid_m window_reader) ''date_time'') = NC_NOERR"
    by code_simp
  have rr: "RoundRobin_distribution one_rank (nfvlen_m window_reader) = [0, 1, 2, 3]"
    by code_simp
  have d: "dist_m window_reader = [2, 3]"
    by code_simp
  note inst = window_filter_retains [OF ctor att, unfolded rr]
  show ?thesis
    by (intro conjI; fact)
qed

subsection \<open>C3\<close>

text \<open>
  C3. With no record-group vector every index is its own record, and the round-robin
  distribution over \<open>N\<close> indices on \<open>R\<close> ranks (\<open>R\<close> is at least 1) gives rank \<open>r\<close> exactly
  the indices \<open>k < N\<close> with \<open>k mod R = r\<close>, in ascending order.
\<close>

theorem RoundRobin_assigns_k_mod_R:
  assumes "0 < R"
  shows "RoundRobin_distribution \<lparr>comm_rank = r, comm_size = R\<rparr> N
         = filter (\<lambda>k. k mod R = r) [0..<N]
       \<and> (k \<in> set (RoundRobin_distribution \<lparr>comm_rank = r, comm_size = R\<rparr> N))
         = (k < N \<and> k mod R = r)
       \<and> sorted (RoundRobin_distribution \<lparr>comm_rank = r, comm_size = R\<rparr> N)"
  by (simp add: RoundRobin_distribution_filter sorted_wrt_filter)

text \<open>
  C3 with 9 locations on 3 ranks: rank 0 owns 0, 3, 6, rank 1 owns 1, 4, 7 and rank 2 owns
  2, 5, 8.
\<close>

theorem RoundRobin_assigns_k_mod_R_witness:
  "(0 :: nat) < 3
   \<and> RoundRobin_distribution \<lparr>comm_rank = 0, comm_size = 3\<rparr> 9 = [0, 3, 6]
   \<and> RoundRobin_distribution \<lparr>comm_rank = 1, comm_size = 3\<rparr> 9 = [1, 4, 7]
   \<and> RoundRobin_distribution \<lparr>comm_rank = 2, comm_size = 3\<rparr> 9 = [2, 5, 8]
   \<and> (4 \<in> set (RoundRobin_distribution \<lparr>comm_rank = 1, comm_size = 3\<rparr> 9))"
proof -
  have pos: "(0 :: nat) < 3" by simp
  have up: "[0..<9] = [0, 1, 2, 3, 4, 5, 6, 7, 8::nat]"
    by (simp add: upt_rec)
  have r0: "RoundRobin_distribution \<lparr>comm_rank = 0, comm_size = 3\<rparr> 9 = [0, 3, 6]"
    using RoundRobin_assigns_k_mod_R [OF pos, of 0 9] by (simp add: up)
  have r1: "RoundRobin_distribution \<lparr>comm_rank = 1, comm_size = 3\<rparr> 9 = [1, 4, 7]"
    using RoundRobin_assigns_k_mod_R [OF pos, of 1 9] by (simp add: up)
  have r2: "RoundRobin_distribution \<lparr>comm_rank = 2, comm_size = 3\<rparr> 9 = [2, 5, 8]"
    using RoundRobin_assigns_k_mod_R [OF pos, of 2 9] by (simp add: up)
  have m: "4 \<in> set (RoundRobin_distribution \<lparr>comm_rank = 1, comm_size = 3\<rparr> 9)"
    using RoundRobin_assigns_k_mod_R [OF pos, of 1 9 4] by simp
  show ?thesis
    by (intro conjI; fact)
qed

subsection \<open>C4\<close>

text \<open>
  C4, as the code has it. For the attribute \<open>date_time\<close> (yyyymmddhh) and the offset in
  hours of observation \<open>i\<close>, the timestamp that \<open>ReadDateTime\<close> derives is
  \<open>ref + static_cast<int>(offset * 3600)\<close> seconds, where \<open>ref\<close> is made from
  \<open>date_time / 100\<close> and \<open>(date_time % 100) * 3600\<close> seconds. The cast discards the
  fractional part of the number of seconds (it truncates towards zero); it does not round
  to the nearest integer.
\<close>

theorem ReadDateTime_truncates_offset:
  assumes "ReadDateTime ux s = Returned VarDateTime"
    and "nc_get_att_int (ncid_m s) ''date_time'' = Inr date_time"
    and "time_variable (ncid_m s) = Returned varid"
    and "nc_get_var_float ux (ncid_m s) varid = Inr OffsetTime"
    and "i < length OffsetTime"
  shows "VarDateTime ! i
         = datetime_setints_f ux (c_div date_time 100) (c_mod date_time 100 * 3600)
           + static_cast_int (float_mult ux (OffsetTime ! i) 3600)
       \<and> \<bar>real_of_int (static_cast_int (float_mult ux (OffsetTime ! i) 3600))\<bar>
           \<le> \<bar>float_mult ux (OffsetTime ! i) 3600\<bar>
       \<and> \<bar>float_mult ux (OffsetTime ! i) 3600\<bar>
           < \<bar>real_of_int (static_cast_int (float_mult ux (OffsetTime ! i) 3600))\<bar> + 1"
proof -
  from ReadDateTime_Returned [OF assms(1)] assms(2-4)
  have "VarDateTime = map (\<lambda>x. reference_DateTime ux date_time + offset_seconds ux x) OffsetTime
          @ replicate (nfvlen_m s - length OffsetTime) (default_DateTime ux)"
    by auto
  with assms(5) have "VarDateTime ! i
      = reference_DateTime ux date_time + offset_seconds ux (OffsetTime ! i)"
    by (simp add: nth_append)
  then show ?thesis
    using static_cast_int_truncates [of "float_mult ux (OffsetTime ! i) 3600"]
    by (simp add: reference_DateTime_def offset_seconds_def)
qed

text \<open>
  C4 at \<open>date_time = 2018041500\<close> and an offset of a quarter of an hour: the timestamp is
  the reference plus 900 seconds.
\<close>

theorem ReadDateTime_truncates_offset_witness:
  "ReadDateTime example_env window_reader
   = Returned [example_setints 20180414 84600, example_setints 20180415 0,
               example_setints 20180415 900, example_setints 20180415 1800]
   \<and> nc_get_att_int (ncid_m window_reader) ''date_time'' = Inr 2018041500
   \<and> time_variable (ncid_m window_reader) = Returned 0
   \<and> nc_get_var_float example_env (ncid_m window_reader) 0 = Inr [- 1 / 2, 0, 1 / 4, 1 / 2]
   \<and> 2 < length [- 1 / 2, 0, 1 / 4, 1 / 2 :: real]
   \<and> [example_setints 20180414 84600, example_setints 20180415 0,
        example_setints 20180415 900, example_setints 20180415 1800] ! 2
     = datetime_setints_f example_env (c_div 2018041500 100) (c_mod 2018041500 100 * 3600)
       + static_cast_int (float_mult example_env ([- 1 / 2, 0, 1 / 4, 1 / 2] ! 2) 3600)
   \<and> static_cast_int (float_mult example_env ([- 1 / 2, 0, 1 / 4, 1 / 2] ! 2) 3600) = 900"
proof -
  have rd: "ReadDateTime example_env window_reader
      = Returned [example_setints 20180414 84600, example_setints 20180415 0,
                  example_setints 20180415 900, example_setints 20180415 1800]"
    by code_simp
  have att: "nc_get_att_int (ncid_m window_reader) ''date_time'' = Inr 2018041500"
    by code_simp
  have tv: "time_variable (ncid_m window_reader) = Returned 0"
    by code_simp
  have off: "nc_get_var_float example_env (ncid_m window_reader) 0 = Inr [- 1 / 2, 0, 1 / 4, 1 / 2]"
    by code_simp
  have i: "2 < length [- 1 / 2, 0, 1 / 4, 1 / 2 :: real]"
    by simp
  have sec: "static_cast_int (float_mult example_env ([- 1 / 2, 0, 1 / 4, 1 / 2] ! 2) 3600) = 900"
    by code_simp
  note inst = ReadDateTime_truncates_offset [OF rd att tv off i]
  have c: "[example_setints 20180414 84600, example_setints 20180415 0,
        example_setints 20180415 900, example_setints 20180415 1800] ! 2
     = datetime_setints_f example_env (c_div 2018041500 100) (c_mod 2018041500 100 * 3600)
       + static_cast_int (float_mult example_env ([- 1 / 2, 0, 1 / 4, 1 / 2] ! 2) 3600)"
    by (rule conjunct1 [OF inst])
  show ?thesis
    by (intro conjI; fact)
qed

text \<open>
  C4 with rounding does not hold: for an offset of 1/4096 hour the product with 3600 is
  0.87890625 seconds, exactly; it rounds to 1, and the timestamp derived is the reference
  plus 0 seconds.
\<close>

theorem offset_rounding_counterexample:
  "obind (reader_of (time_file 2018041500 [1 / 4096] [1])
            (example_setints 20180414 0) (example_setints 20180416 0))
     (ReadDateTime example_env)
   = Returned [reference_DateTime example_env 2018041500 + 0]
   \<and> round (float_mult example_env (1 / 4096) 3600) = 1"
  by code_simp

subsection \<open>C5\<close>

text \<open>
  C5 fails on the code, at the legacy radiance file of the specification and at a file
  with channels. For the radiance file (20 observations, 4 channels, no \<open>nrecs\<close>) the
  sizes are the claim's, \<open>nvars\<close> 4 and 5 locations; then \<open>ReadDateTime\<close> reads the 20
  values of \<open>time\<close> and writes 20 timestamps into the array of 5 that the constructor
  made (lines 226 and 610): the constructor has no defined result, and neither has the
  load of the file. For the file with channels and no \<open>date_time\<close>, which has no dimension
  \<open>nlocs\<close>, the inquiry at line 159 fails and \<open>nlocs_id_\<close> is never assigned; the test of
  line 208 compares with what the member held before: at 0 the column on \<open>nobs\<close> is the
  one selected, at 1 the column on \<open>nchans\<close>, at -1 none. The column on \<open>nobs\<close>, when
  selected, is read as 8 values into an array of 2 (lines 329, 330 and 383).
\<close>

theorem legacy_load_undefined:
  "map_of (nc_dims radiance_file) ''nrecs'' = None
   \<and> obind (set_sizes (query_dims (initial_members members0 ''in.nc'' ''r'' 0 0 0 0 radiance_file)))
       (\<lambda>s. Returned (nvars_m s, nfvlen_m s))
     = Returned (4, 5)
   \<and> obind (checked (nc_get_var_float example_env radiance_file 0) []) (\<lambda>xs. Returned (length xs))
     = Returned 20
   \<and> reader_of radiance_file radiance_bgn radiance_end = UndefinedBehaviour
   \<and> CreateFromFile example_env (one_file radiance_file) members0 empty_container ''in.nc'' ''r''
       radiance_bgn radiance_end one_rank
     = UndefinedBehaviour
   \<and> nc_inq_dimid legacy_file_B ''nlocs'' = Inl NC_EBADDIM
   \<and> obind (NetcdfIO_ctor example_env (one_file legacy_file_B) (members0\<lparr>nlocs_id_m := 0\<rparr>)
              ''in.nc'' ''r'' 0 10 one_rank 0 0 0 0)
       (\<lambda>s. Returned (nvars_m s, nfvlen_m s, vname_group_m s))
     = Returned (4, 2, [(''lat'', '''')])
   \<and> obind (NetcdfIO_ctor example_env (one_file legacy_file_B) (members0\<lparr>nlocs_id_m := 1\<rparr>)
              ''in.nc'' ''r'' 0 10 one_rank 0 0 0 0)
       (\<lambda>s. Returned (nvars_m s, nfvlen_m s, vname_group_m s))
     = Returned (4, 2, [(''frequency'', '''')])
   \<and> obind (NetcdfIO_ctor example_env (one_file legacy_file_B) (members0\<lparr>nlocs_id_m := - 1\<rparr>)
              ''in.nc'' ''r'' 0 10 one_rank 0 0 0 0)
       (\<lambda>s. Returned (nvars_m s, nfvlen_m s, vname_group_m s))
     = Returned (4, 2, [])
   \<and> obind (reader_of legacy_file_B 0 10)
       (\<lambda>s. ReadVar_any example_env s ''lat'' (replicate 2 any_empty))
     = UndefinedBehaviour"
  by code_simp

subsection \<open>C6\<close>

text \<open>
  C6, as the code has it. When \<open>dump\<close> returns, the file it has written has the four
  dimensions, \<open>nlocs\<close> of the size of the container, and its variables are named
  \<open>variable@group\<close>, whatever the group is, \<open>GroupUndefined\<close> included: one for each
  record of the by-variable view whose column begins with an \<open>int\<close>, a \<open>float\<close> or a
  \<open>double\<close>, in the order of that view, a name that several records share standing once,
  at its first place. A record whose column begins with an empty element leaves no
  variable. When the names of the records written differ from one another, the variables
  of the file are exactly these, each of rank 1 on \<open>nlocs\<close>, of the type of its column
  and with the first \<open>nlocs()\<close> values of its column. \<open>dump\<close> returns for every container
  whose columns are writable and whose written names differ from one another. The
  by-variable view is the records sorted by variable name, every record once.
\<close>

theorem dump_writes_variable_at_group:
  "(dump ux fs m0 c file_name = Returned fileio \<longrightarrow>
      map var_name (nc_vars (ncid_m fileio))
      = rev (remdups (rev (map (\<lambda>r. rec_variable r @ ''@'' @ rec_group r)
                             (filter holds_values (by_variable (DataContainer c))))))
      \<and> nc_dims (ncid_m fileio)
        = [(''nlocs'', container_nlocs_m c), (''nobs'', 0), (''nrecs'', 0),
           (''nvars'', container_nvars_m c)]
      \<and> (distinct (map (\<lambda>r. rec_variable r @ ''@'' @ rec_group r)
                     (filter holds_values (DataContainer c))) \<longrightarrow>
           nc_vars (ncid_m fileio)
           = List.map_filter (written_var 0 (container_nlocs_m c))
               (by_variable (DataContainer c))))
   \<and> (list_all (writable (container_nlocs_m c)) (DataContainer c)
      \<and> distinct (map (\<lambda>r. rec_variable r @ ''@'' @ rec_group r)
                    (filter holds_values (DataContainer c))) \<longrightarrow>
        (\<exists>written. dump ux fs m0 c file_name = Returned written))
   \<and> sorted (map rec_variable (by_variable (DataContainer c)))
   \<and> mset (by_variable (DataContainer c)) = mset (DataContainer c)"
proof -
  let ?rs = "by_variable (DataContainer c)"
  let ?name = "\<lambda>r. rec_variable r @ ''@'' @ rec_group r"
  have dn: "dump_name = ?name" by (rule ext) (simp add: dump_name_def)
  obtain s0 where
    c0: "NetcdfIO_ctor ux fs m0 file_name ''W'' (container_winbgn_m c) (container_winend_m c)
           (container_commMPI_m c) (container_nlocs_m c) 0 0 (container_nvars_m c) = Returned s0"
    and v0: "nc_vars (ncid_m s0) = []"
    and d0: "nc_dims (ncid_m s0)
       = [(''nlocs'', container_nlocs_m c), (''nobs'', 0), (''nrecs'', 0),
          (''nvars'', container_nvars_m c)]"
    and i0: "nlocs_id_m s0 = 0" and n0: "nlocs_m s0 = container_nlocs_m c"
    using NetcdfIO_ctor_W by blast
  have du: "dump ux fs m0 c file_name = write_records ux s0 ?rs"
    by (simp add: dump_def IodaIOfactory_Create_def c0)
  from d0 i0 n0 have dim: "nc_inq_dimlen (ncid_m s0) (nlocs_id_m s0) = Inr (nlocs_m s0)"
    by (simp add: nc_inq_dimlen_def)
  have dist: "distinct (map dump_name (filter holds_values ?rs))
      = distinct (map ?name (filter holds_values (DataContainer c)))"
    by (simp add: by_variable_written(1,3) dn)
  from v0 have e: "set (map dump_name (filter holds_values ?rs))
      \<inter> set (map var_name (nc_vars (ncid_m s0))) = {}"
    by simp
  have first: "dump ux fs m0 c file_name = Returned fileio \<longrightarrow>
      map var_name (nc_vars (ncid_m fileio))
      = rev (remdups (rev (map ?name (filter holds_values ?rs))))
      \<and> nc_dims (ncid_m fileio)
        = [(''nlocs'', container_nlocs_m c), (''nobs'', 0), (''nrecs'', 0),
           (''nvars'', container_nvars_m c)]
      \<and> (distinct (map ?name (filter holds_values (DataContainer c))) \<longrightarrow>
           nc_vars (ncid_m fileio)
           = List.map_filter (written_var 0 (container_nlocs_m c)) ?rs)"
  proof (intro impI conjI)
    assume "dump ux fs m0 c file_name = Returned fileio"
    with du have w: "write_records ux s0 ?rs = Returned fileio" by simp
    from write_records_names [OF w] v0
    show "map var_name (nc_vars (ncid_m fileio))
      = rev (remdups (rev (map ?name (filter holds_values ?rs))))"
      by (simp add: foldl_names_after dn)
    from write_records_dims [OF w] d0
    show "nc_dims (ncid_m fileio)
        = [(''nlocs'', container_nlocs_m c), (''nobs'', 0), (''nrecs'', 0),
           (''nvars'', container_nvars_m c)]"
      by simp
    assume "distinct (map ?name (filter holds_values (DataContainer c)))"
    with dist have "distinct (map dump_name (filter holds_values ?rs))" by simp
    from write_records_fresh [OF w this e dim] v0 i0 n0
    show "nc_vars (ncid_m fileio)
         = List.map_filter (written_var 0 (container_nlocs_m c)) ?rs"
      by simp
  qed
  have second: "list_all (writable (container_nlocs_m c)) (DataContainer c)
      \<and> distinct (map ?name (filter holds_values (DataContainer c))) \<longrightarrow>
        (\<exists>written. dump ux fs m0 c file_name = Returned written)"
  proof (intro impI, elim conjE)
    assume wr: "list_all (writable (container_nlocs_m c)) (DataContainer c)"
      and "distinct (map ?name (filter holds_values (DataContainer c)))"
    with dist have d: "distinct (map dump_name (filter holds_values ?rs))" by simp
    have "set ?rs = set (DataContainer c)"
      using by_variable_written(2) [of "DataContainer c"] by (rule mset_eq_setD)
    with wr n0 have "list_all (writable (nlocs_m s0)) ?rs" by (simp add: list_all_iff)
    from write_records_returns [OF this d e dim, of ux] du
    show "\<exists>written. dump ux fs m0 c file_name = Returned written" by simp
  qed
  have "sorted (map rec_variable ?rs)" by (simp add: by_variable_def)
  with first second by_variable_written(2) [of "DataContainer c"] show ?thesis
    by (intro conjI) 
qed

text \<open>
  C6 for the container loaded from a file with the variables \<open>x@ObsValue\<close>, \<open>lat\<close>,
  \<open>n@MetaData\<close> and the text \<open>station@MetaData\<close>: \<open>dump\<close> returns, and the file it has
  written holds \<open>lat@GroupUndefined\<close> with 3, 4, \<open>n@MetaData\<close> with 5, 6 and \<open>x@ObsValue\<close>
  with 1, 2, on the dimension \<open>nlocs\<close> of length 2.
\<close>

theorem dump_writes_variable_at_group_witness:
  "CreateFromFile example_env (one_file mixed_file) members0 empty_container ''in.nc'' ''r'' 0 10
     one_rank = Returned loaded_container
   \<and> map (\<lambda>r. (rec_variable r, rec_group r)) (DataContainer loaded_container)
     = [(''x'', ''ObsValue''), (''lat'', ''GroupUndefined''), (''n'', ''MetaData''),
        (''station'', ''MetaData'')]
   \<and> list_all (writable (container_nlocs_m loaded_container)) (DataContainer loaded_container)
   \<and> distinct (map (\<lambda>r. rec_variable r @ ''@'' @ rec_group r)
                 (filter holds_values (DataContainer loaded_container)))
   \<and> (\<exists>written. dump example_env (\<lambda>p. None) members0 loaded_container ''out.nc'' = Returned written
        \<and> nc_vars (ncid_m written)
          = [\<lparr>var_name = ''lat@GroupUndefined'', var_dimids = [0], var_values = FloatValues [3, 4]\<rparr>,
             \<lparr>var_name = ''n@MetaData'', var_dimids = [0], var_values = IntValues [5, 6]\<rparr>,
             \<lparr>var_name = ''x@ObsValue'', var_dimids = [0], var_values = FloatValues [1, 2]\<rparr>]
        \<and> nc_dims (ncid_m written)
          = [(''nlocs'', 2), (''nobs'', 0), (''nrecs'', 0), (''nvars'', 1)])"
proof -
  have load: "CreateFromFile example_env (one_file mixed_file) members0 empty_container ''in.nc''
      ''r'' 0 10 one_rank = Returned loaded_container"
    by code_simp
  have recs: "map (\<lambda>r. (rec_variable r, rec_group r)) (DataContainer loaded_container)
     = [(''x'', ''ObsValue''), (''lat'', ''GroupUndefined''), (''n'', ''MetaData''),
        (''station'', ''MetaData'')]"
    by code_simp
  have wr: "list_all (writable (container_nlocs_m loaded_container)) (DataContainer loaded_container)"
    by code_simp
  have di: "distinct (map (\<lambda>r. rec_variable r @ ''@'' @ rec_group r)
                 (filter holds_values (DataContainer loaded_container)))"
    by code_simp
  have sizes: "container_nlocs_m loaded_container = 2" "container_nvars_m loaded_container = 1"
    by code_simp+
  have mf: "List.map_filter (written_var 0 (container_nlocs_m loaded_container))
        (by_variable (DataContainer loaded_container))
      = [\<lparr>var_name = ''lat@GroupUndefined'', var_dimids = [0], var_values = FloatValues [3, 4]\<rparr>,
         \<lparr>var_name = ''n@MetaData'', var_dimids = [0], var_values = IntValues [5, 6]\<rparr>,
         \<lparr>var_name = ''x@ObsValue'', var_dimids = [0], var_values = FloatValues [1, 2]\<rparr>]"
    by code_simp
  note inst = dump_writes_variable_at_group [where ux = example_env and fs = "\<lambda>p. None"
      and ?m0.0 = members0 and c = loaded_container and file_name = "''out.nc''"]
  have "\<exists>written. dump example_env (\<lambda>p. None) members0 loaded_container ''out.nc'' = Returned written"
    by (rule mp [OF conjunct1 [OF conjunct2 [OF inst]]]) (intro conjI; fact)
  then obtain written where
    ret: "dump example_env (\<lambda>p. None) members0 loaded_container ''out.nc'' = Returned written" ..
  note at_written = mp [OF conjunct1 [OF inst [where fileio = written]] ret]
  have "nc_vars (ncid_m written)
      = List.map_filter (written_var 0 (container_nlocs_m loaded_container))
          (by_variable (DataContainer loaded_container))"
    by (rule mp [OF conjunct2 [OF conjunct2 [OF at_written]] di])
  from this mf have vars: "nc_vars (ncid_m written)
      = [\<lparr>var_name = ''lat@GroupUndefined'', var_dimids = [0], var_values = FloatValues [3, 4]\<rparr>,
         \<lparr>var_name = ''n@MetaData'', var_dimids = [0], var_values = IntValues [5, 6]\<rparr>,
         \<lparr>var_name = ''x@ObsValue'', var_dimids = [0], var_values = FloatValues [1, 2]\<rparr>]"
    by (rule trans)
  from conjunct1 [OF conjunct2 [OF at_written]] sizes
  have dims: "nc_dims (ncid_m written)
      = [(''nlocs'', 2), (''nobs'', 0), (''nrecs'', 0), (''nvars'', 1)]"
    by simp
  from ret vars dims
  have ex: "\<exists>written. dump example_env (\<lambda>p. None) members0 loaded_container ''out.nc'' = Returned written
        \<and> nc_vars (ncid_m written)
          = [\<lparr>var_name = ''lat@GroupUndefined'', var_dimids = [0], var_values = FloatValues [3, 4]\<rparr>,
             \<lparr>var_name = ''n@MetaData'', var_dimids = [0], var_values = IntValues [5, 6]\<rparr>,
             \<lparr>var_name = ''x@ObsValue'', var_dimids = [0], var_values = FloatValues [1, 2]\<rparr>]
        \<and> nc_dims (ncid_m written)
          = [(''nlocs'', 2), (''nobs'', 0), (''nrecs'', 0), (''nvars'', 1)]"
    by (intro exI [of _ written] conjI)
  show ?thesis
    by (intro conjI; fact)
qed

text \<open>
  C6 as stated does not hold. The variable \<open>lat\<close> of the group \<open>GroupUndefined\<close> is
  written as \<open>lat@GroupUndefined\<close>, not as \<open>lat\<close>. Of the four records of the loaded
  container three are written: the column of the text variable \<open>station\<close> is empty and is
  skipped. The records \<open>a\<close> of group \<open>b@c\<close> and \<open>a@b\<close> of group \<open>c\<close> are written to the one
  variable \<open>a@b@c\<close>, which keeps the values of the second. A column that holds an \<open>int\<close>
  and then a \<open>float\<close> ends \<open>dump\<close> with \<open>boost::bad_any_cast\<close>.
\<close>

theorem dump_GroupUndefined_counterexample:
  "obind (dump example_env (\<lambda>p. None) members0 undefined_group_container ''out.nc'')
     (\<lambda>fileio. Returned (map var_name (nc_vars (ncid_m fileio))))
   = Returned [''lat@GroupUndefined'']
   \<and> map rec_variable (DataContainer loaded_container) = [''x'', ''lat'', ''n'', ''station'']
   \<and> obind (dump example_env (\<lambda>p. None) members0 loaded_container ''out.nc'')
       (\<lambda>fileio. Returned (map var_name (nc_vars (ncid_m fileio))))
     = Returned [''lat@GroupUndefined'', ''n@MetaData'', ''x@ObsValue'']
   \<and> obind (dump example_env (\<lambda>p. None) members0 same_name_container ''out.nc'')
       (\<lambda>fileio. Returned (nc_vars (ncid_m fileio)))
     = Returned [\<lparr>var_name = ''a@b@c'', var_dimids = [0], var_values = FloatValues [2]\<rparr>]
   \<and> dump example_env (\<lambda>p. None) members0 mixed_column_container ''out.nc''
     = Thrown ''boost::bad_any_cast''"
  by code_simp

subsection \<open>C7\<close>

text \<open>
  C7, as the container has it. Take a variable that the container does not hold yet, and
  data of length \<open>n\<close>. Appending the segments of a partition of \<open>[0..n)\<close> in ascending
  order of their starts (the starts computed from the counts) leaves the same buffer as
  one store of the whole data. Loading segments that lie inside \<open>[0..n)\<close> and together
  cover it, in any order, gives the same data as one load of the whole range.
\<close>

theorem segmented_store_and_load:
  assumes absent: "find (same_var g v) db = None"
    and nonempty: "Counts \<noteq> []"
    and total: "sum_list Counts = length VarData"
    and same_len: "length Starts' = length Counts'"
    and in_range: "list_all (\<lambda>(s, c). s + c \<le> length VarData) (zip Starts' Counts')"
    and all_covered: "list_all (covered Starts' Counts') [0..<length VarData]"
    and out_len: "length out = length VarData"
  shows "\<exists>db'. StoreVarSegments g v sh VarData (Starts_of Counts) Counts db = Returned db'
       \<and> LoadFromDb g v sh 0 (length VarData) db' = Inr VarData
       \<and> LoadFromDb g v sh 0 (length VarData) (StoreToDb g v sh VarData False db) = Inr VarData
       \<and> LoadVarSegments g v sh out Starts' Counts' db' = Returned VarData"
proof -
  from StoreVarSegments_whole [OF absent nonempty total, of sh] obtain db' r' where
    st: "StoreVarSegments g v sh VarData (Starts_of Counts) Counts db = Returned db'"
    and f: "find (same_var g v) db' = Some r'" and d: "vr_data r' = VarData"
    by blast
  from LoadFromDb_whole [OF f, of sh] d
  have l1: "LoadFromDb g v sh 0 (length VarData) db' = Inr VarData" by simp
  have "find (same_var g v) (StoreToDb g v sh VarData False db)
      = Some \<lparr>vr_group = g, vr_variable = v, vr_shape = sh, vr_data = VarData\<rparr>"
    by (rule StoreToDb_new [OF absent])
  from LoadFromDb_whole [OF this, of sh]
  have l2: "LoadFromDb g v sh 0 (length VarData) (StoreToDb g v sh VarData False db) = Inr VarData"
    by simp
  from in_range d have ir: "list_all (\<lambda>(s, c). s + c \<le> length (vr_data r')) (zip Starts' Counts')"
    by simp
  from out_len d have ol: "length out = length (vr_data r')" by simp
  from all_covered d have ac: "list_all (covered Starts' Counts') [0..<length (vr_data r')]" by simp
  from LoadVarSegments_whole [OF f same_len ir ol ac, of sh] d
  have l3: "LoadVarSegments g v sh out Starts' Counts' db' = Returned VarData" by simp
  from st l1 l2 l3 show ?thesis by blast
qed

text \<open>
  C7 for the data 10, 20, 30, 40, 50: appended as the segments (0,2), (2,1), (3,2) and
  loaded as the segments (0,2), (2,2), (4,1), the result is the data.
\<close>

theorem segmented_store_and_load_witness:
  "find (same_var ''ObsValue'' ''x'') ([] :: int VarRecord list) = None
   \<and> [2, 1, 2] \<noteq> ([] :: nat list)
   \<and> sum_list [2, 1, 2] = length [10, 20, 30, 40, 50 :: int]
   \<and> Starts_of [2, 1, 2] = [0, 2, 3]
   \<and> Starts_of [2, 2, 1] = [0, 2, 4]
   \<and> length (Starts_of [2, 2, 1]) = length [2, 2, 1 :: nat]
   \<and> list_all (\<lambda>(s, c). s + c \<le> length [10, 20, 30, 40, 50 :: int])
        (zip (Starts_of [2, 2, 1]) [2, 2, 1])
   \<and> list_all (covered (Starts_of [2, 2, 1]) [2, 2, 1]) [0..<length [10, 20, 30, 40, 50 :: int]]
   \<and> length [0, 0, 0, 0, 0 :: int] = length [10, 20, 30, 40, 50 :: int]
   \<and> (\<exists>db'. StoreVarSegments ''ObsValue'' ''x'' [5] [10, 20, 30, 40, 50]
               (Starts_of [2, 1, 2]) [2, 1, 2] ([] :: int VarRecord list) = Returned db'
        \<and> LoadFromDb ''ObsValue'' ''x'' [5] 0 (length [10, 20, 30, 40, 50 :: int]) db'
          = Inr [10, 20, 30, 40, 50]
        \<and> LoadFromDb ''ObsValue'' ''x'' [5] 0 (length [10, 20, 30, 40, 50 :: int])
            (StoreToDb ''ObsValue'' ''x'' [5] [10, 20, 30, 40, 50 :: int] False [])
          = Inr [10, 20, 30, 40, 50]
        \<and> LoadVarSegments ''ObsValue'' ''x'' [5] [0, 0, 0, 0, 0] (Starts_of [2, 2, 1]) [2, 2, 1] db'
          = Returned [10, 20, 30, 40, 50])"
proof -
  have absent: "find (same_var ''ObsValue'' ''x'') ([] :: int VarRecord list) = None" by simp
  have nonempty: "[2, 1, 2] \<noteq> ([] :: nat list)" by simp
  have total: "sum_list [2, 1, 2] = length [10, 20, 30, 40, 50 :: int]" by simp
  have st1: "Starts_of [2, 1, 2] = [0, 2, 3]" by code_simp
  have st2: "Starts_of [2, 2, 1] = [0, 2, 4]" by code_simp
  have same_len: "length (Starts_of [2, 2, 1]) = length [2, 2, 1 :: nat]" by code_simp
  have in_range: "list_all (\<lambda>(s, c). s + c \<le> length [10, 20, 30, 40, 50 :: int])
        (zip (Starts_of [2, 2, 1]) [2, 2, 1])"
    by code_simp
  have all_covered: "list_all (covered (Starts_of [2, 2, 1]) [2, 2, 1])
        [0..<length [10, 20, 30, 40, 50 :: int]]"
    by code_simp
  have out_len: "length [0, 0, 0, 0, 0 :: int] = length [10, 20, 30, 40, 50 :: int]" by simp
  note inst = segmented_store_and_load
    [OF absent nonempty total same_len in_range all_covered out_len, of "[5]"]
  show ?thesis
    by (intro conjI; fact)
qed

text \<open>
  C7 does not hold for stores in any order: appending the segment (2,1) of the data
  1, 2, 3 before the segment (0,2) leaves the buffer 3, 1, 2, and one store of the whole
  data leaves 1, 2, 3.
\<close>

theorem segment_order_counterexample:
  "obind (StoreVarSegments ''ObsValue'' ''x'' [3] [1, 2, 3 :: int] [2, 0] [1, 2] [])
     (\<lambda>db. Returned (LoadFromDb ''ObsValue'' ''x'' [3] 0 3 db))
   = Returned (Inr [3, 1, 2])
   \<and> LoadFromDb ''ObsValue'' ''x'' [3] 0 3 (StoreToDb ''ObsValue'' ''x'' [3] [1, 2, 3 :: int] False [])
     = Inr [1, 2, 3]"
  by code_simp

subsection \<open>C8\<close>

text \<open>
  C8, as the code has it. A call of the netCDF library whose return code \<open>CheckNcCall\<close>
  checks and finds different from \<open>NC_NOERR\<close> aborts the process with the error message,
  and so does a failed open in the constructor: a file to read that does not exist, a
  file to create without overwriting that exists. Reading a variable that the file does
  not have aborts in this way. No error is returned to the caller.
\<close>

theorem failed_backend_call_aborts:
  "(RetCode \<noteq> NC_NOERR \<longrightarrow> CheckNcCall RetCode ErrorMsg = Aborted ErrorMsg)
   \<and> (fs FileName = None \<longrightarrow>
        NetcdfIO_ctor ux fs m0 FileName ''r'' bgn endt commMPI Nlocs Nobs Nrecs Nvars
        = Aborted ''Unable to open file'')
   \<and> (fs' FileName' \<noteq> None \<longrightarrow>
        NetcdfIO_ctor ux fs' m0 FileName' ''w'' bgn endt commMPI Nlocs Nobs Nrecs Nvars
        = Aborted ''Unable to open file'')
   \<and> (\<not> starts_with ''date'' VarName \<and> \<not> starts_with ''time'' VarName
        \<and> nc_inq_varid (ncid_m s) VarName = Inl NC_ENOTVAR \<longrightarrow>
        ReadVar_any ux s VarName VarData
        = Aborted (''NetcdfIO::ReadVar_any: Netcdf dataset not found: '' @ VarName))"
  by (auto simp: CheckNcCall_def NetcdfIO_ctor_def open_by_mode_def nc_open_def nc_create_def
      retval_def NC_NOERR_def ENOENT_def NC_EEXIST_def NC_ENOTVAR_def ReadVar_any_def checked_def)

text \<open>
  C8 at the return code \<open>NC_ENOTVAR\<close>, at the file \<open>out.nc\<close>, which does not exist, opened
  for read, at the file \<open>in.nc\<close>, which exists, opened in mode \<open>w\<close>, and at the variable
  \<open>y@ObsValue\<close>, which the file does not have.
\<close>

theorem failed_backend_call_aborts_witness:
  "NC_ENOTVAR \<noteq> NC_NOERR
   \<and> CheckNcCall NC_ENOTVAR ''NetcdfIO::ReadVar: Netcdf dataset not found: y'' 
     = Aborted ''NetcdfIO::ReadVar: Netcdf dataset not found: y''
   \<and> one_file window_file ''out.nc'' = None
   \<and> NetcdfIO_ctor example_env (one_file window_file) members0 ''out.nc'' ''r'' 0 10 one_rank 0 0 0 0
     = Aborted ''Unable to open file''
   \<and> one_file window_file ''in.nc'' \<noteq> None
   \<and> NetcdfIO_ctor example_env (one_file window_file) members0 ''in.nc'' ''w'' 0 10 one_rank 0 0 0 0
     = Aborted ''Unable to open file''
   \<and> \<not> starts_with ''date'' ''y@ObsValue'' \<and> \<not> starts_with ''time'' ''y@ObsValue''
   \<and> nc_inq_varid (ncid_m float_reader) ''y@ObsValue'' = Inl NC_ENOTVAR
   \<and> ReadVar_any example_env float_reader ''y@ObsValue'' [any_empty, any_empty, any_empty]
     = Aborted (''NetcdfIO::ReadVar_any: Netcdf dataset not found: '' @ ''y@ObsValue'')"
proof -
  have rc: "NC_ENOTVAR \<noteq> NC_NOERR" by (simp add: NC_ENOTVAR_def NC_NOERR_def)
  have f1: "one_file window_file ''out.nc'' = None" by (simp add: one_file_def)
  have f2: "one_file window_file ''in.nc'' \<noteq> None" by (simp add: one_file_def)
  have nd: "\<not> starts_with ''date'' ''y@ObsValue''" by code_simp
  have nt: "\<not> starts_with ''time'' ''y@ObsValue''" by code_simp
  have nv: "nc_inq_varid (ncid_m float_reader) ''y@ObsValue'' = Inl NC_ENOTVAR" by code_simp
  note inst = failed_backend_call_aborts [where RetCode = NC_ENOTVAR
      and ErrorMsg = "''NetcdfIO::ReadVar: Netcdf dataset not found: y''"
      and fs = "one_file window_file" and FileName = "''out.nc''"
      and fs' = "one_file window_file" and FileName' = "''in.nc''"
      and ux = example_env and ?m0.0 = members0 and bgn = 0 and endt = 10 and commMPI = one_rank
      and Nlocs = 0 and Nobs = 0 and Nrecs = 0 and Nvars = 0
      and VarName = "''y@ObsValue''" and s = float_reader
      and VarData = "[any_empty, any_empty, any_empty]"]
  have c1: "CheckNcCall NC_ENOTVAR ''NetcdfIO::ReadVar: Netcdf dataset not found: y''
     = Aborted ''NetcdfIO::ReadVar: Netcdf dataset not found: y''"
    by (rule mp [OF conjunct1 [OF inst] rc])
  have c2: "NetcdfIO_ctor example_env (one_file window_file) members0 ''out.nc'' ''r'' 0 10 one_rank
     0 0 0 0 = Aborted ''Unable to open file''"
    by (rule mp [OF conjunct1 [OF conjunct2 [OF inst]] f1])
  have c3: "NetcdfIO_ctor example_env (one_file window_file) members0 ''in.nc'' ''w'' 0 10 one_rank
     0 0 0 0 = Aborted ''Unable to open file''"
    by (rule mp [OF conjunct1 [OF conjunct2 [OF conjunct2 [OF inst]]] f2])
  have c4: "ReadVar_any example_env float_reader ''y@ObsValue'' [any_empty, any_empty, any_empty]
     = Aborted (''NetcdfIO::ReadVar_any: Netcdf dataset not found: '' @ ''y@ObsValue'')"
    by (rule mp [OF conjunct2 [OF conjunct2 [OF conjunct2 [OF inst]]]]) (intro conjI; fact)
  show ?thesis
    by (intro conjI; fact)
qed

text \<open>
  C8 does not hold: opening for read a file that does not exist ends in \<open>ABORT\<close>, which
  stops the process.
\<close>

theorem failed_open_counterexample:
  "NetcdfIO_ctor example_env (\<lambda>p. None) members0 ''missing.nc'' ''r'' 0 10 one_rank 0 0 0 0
   = Aborted ''Unable to open file''"
  by code_simp

subsection \<open>C9\<close>

text \<open>
  C9, as the code has it. For a configuration whose \<open>ObsType\<close> is not one of the six
  recognized names, the constructor of \<open>ObsSpace\<close> returns: it keeps the string as the
  name of the observation type and the window, and runs none of the set-up routines. No
  error is raised.
\<close>

theorem unknown_ObsType_constructs:
  "config ''ObsType'' = Some t \<Longrightarrow> \<not> recognized_ObsType t \<Longrightarrow>
   ObsSpace_ctor config bgn endt
   = Returned \<lparr>obsname_m = t, winbgn_m = bgn, winend_m = endt, keyOspace_m = None\<rparr>"
  by (simp add: ObsSpace_ctor_def setup_for_def recognized_ObsType_def)

text \<open>
  C9 at the \<open>ObsType\<close> \<open>radiance\<close>, in lower case, which is not recognized.
\<close>

theorem unknown_ObsType_constructs_witness:
  "(\<lambda>k. if k = ''ObsType'' then Some ''radiance'' else None) ''ObsType'' = Some ''radiance''
   \<and> \<not> recognized_ObsType ''radiance''
   \<and> ObsSpace_ctor (\<lambda>k. if k = ''ObsType'' then Some ''radiance'' else None) 3 7
     = Returned \<lparr>obsname_m = ''radiance'', winbgn_m = 3, winend_m = 7, keyOspace_m = None\<rparr>"
proof -
  have k: "(\<lambda>k. if k = ''ObsType'' then Some ''radiance'' else None) ''ObsType'' = Some ''radiance''"
    by simp
  have n: "\<not> recognized_ObsType ''radiance''"
    by (simp add: recognized_ObsType_def)
  have c: "ObsSpace_ctor (\<lambda>k. if k = ''ObsType'' then Some ''radiance'' else None) 3 7
     = Returned \<lparr>obsname_m = ''radiance'', winbgn_m = 3, winend_m = 7, keyOspace_m = None\<rparr>"
    using unknown_ObsType_constructs
      [of "\<lambda>k. if k = ''ObsType'' then Some ''radiance'' else None" "''radiance''" 3 7] n
    by simp
  show ?thesis
    by (intro conjI; fact)
qed

text \<open>
  C9 with an error does not hold: with the \<open>ObsType\<close> \<open>Foo\<close> the constructor returns an
  \<open>ObsSpace\<close>.
\<close>

theorem unknown_ObsType_counterexample:
  "\<not> recognized_ObsType ''Foo''
   \<and> ObsSpace_ctor (\<lambda>k. if k = ''ObsType'' then Some ''Foo'' else None) 0 10
     = Returned \<lparr>obsname_m = ''Foo'', winbgn_m = 0, winend_m = 10, keyOspace_m = None\<rparr>"
  by (simp add: ObsSpace_ctor_def setup_for_def recognized_ObsType_def)

subsection \<open>C10\<close>




end
